theory Spec2Isabelle
  imports Complex_Main "HOL-Library.AList" "HOL-Library.Sublist" "HOL-Library.Log_Nat"
begin

section \<open>Python values\<close>

text \<open>
  The session state of \<^verbatim>\<open>studentnumber_easypeasy_web.py\<close> holds two nested dictionaries
  (\<^verbatim>\<open>rates\<close>, \<^verbatim>\<open>high_school_rates\<close>) and a list of result rows. The dictionaries come from
  \<^verbatim>\<open>json.load\<close> or from \<^verbatim>\<open>process_excel\<close>, so a node is a number or a dictionary.

  \<^item> A Python \<^verbatim>\<open>int\<close> is an integer of any size: \<open>IntV\<close>.
  \<^item> A Python \<^verbatim>\<open>float\<close> is an IEEE 754 binary64 value: \<open>FloatV\<close>. \<open>Finite s m\<close> is the
    float with sign bit \<open>s\<close> (\<open>True\<close> for minus) and magnitude \<open>m\<close>, so there are two
    zeros; \<open>Infinity s\<close> and \<open>NaN\<close> are the other floats. An operation on floats rounds
    its exact result to the nearest binary64 value, a tie to the even significand, and
    overflows to an infinity.
  \<^item> A dictionary is an association list in insertion order, \<open>Dict\<close>; a lookup is
    \<open>map_of\<close> and a store is \<open>AList.update\<close> (in place when the key exists,
    appended otherwise, as a Python dict does).
  \<^item> JSON strings, arrays, booleans and null are not modelled.
  \<^item> An exception is a value of \<open>py_error\<close> on the left of a sum.
\<close>

datatype py_error = AttributeError | TypeError | ValueError | ZeroDivisionError | IndexError
  | OverflowError

datatype pyfloat = Finite bool rat | Infinity bool | NaN

datatype pyval = IntV int | FloatV pyfloat | Dict "(string \<times> pyval) list"

fun ebind :: "'e + 'a \<Rightarrow> ('a \<Rightarrow> 'e + 'b) \<Rightarrow> 'e + 'b" where
  "ebind (Inl e) f = Inl e"
| "ebind (Inr x) f = f x"

subsection \<open>Rounding\<close>

text \<open>
  Python 3 rounds a tie to the even neighbour: \<^verbatim>\<open>round(12.5) == 12\<close>,
  \<^verbatim>\<open>round(13.5) == 14\<close>.
\<close>

definition round_half_even :: "rat \<Rightarrow> int" where
  "round_half_even x =
     (let f = \<lfloor>x\<rfloor>; d = x - of_int f
      in if d < 1 / 2 then f else if 1 / 2 < d then f + 1 else if even f then f else f + 1)"

text \<open>
  The binary64 value nearest to a positive rational \<open>x\<close>. With \<open>2 ^ e \<le> x < 2 ^ (e + 1)\<close>
  the floats around \<open>x\<close> are the multiples of \<open>2 ^ (e - 52)\<close> (53 significant bits), and
  of \<open>2 ^ (- 1074)\<close> below the least normal float \<open>2 ^ (- 1022)\<close>; the multiple is chosen
  by \<open>round_half_even\<close>. \<open>ilog2 x\<close> is that exponent \<open>e\<close>.
\<close>

definition ilog2 :: "rat \<Rightarrow> int" where
  "ilog2 x = (if 1 \<le> x then bitlen \<lfloor>x\<rfloor> - 1 else - bitlen (\<lceil>1 / x\<rceil> - 1))"

definition fl :: "rat \<Rightarrow> rat" where
  "fl x = (if x \<le> 0 then 0
           else let q = 2 powi (max (ilog2 x) (- 1022) - 52)
                in of_int (round_half_even (x / q)) * q)"

text \<open>
  The largest float is \<open>2 ^ 1024 - 2 ^ 971\<close>; an exact result of magnitude
  \<open>2 ^ 1024 - 2 ^ 970\<close> or more, half a step beyond it, rounds to an infinity. \<open>double_of\<close>
  is the float of a sign and an exact magnitude.
\<close>

definition overflow_bound :: rat where
  "overflow_bound = 2 ^ 1024 - 2 ^ 970"

definition double_of :: "bool \<Rightarrow> rat \<Rightarrow> pyfloat" where
  "double_of s x = (if overflow_bound \<le> x then Infinity s else Finite s (fl x))"

definition signed :: "bool \<Rightarrow> rat \<Rightarrow> rat" where
  "signed s x = (if s then - x else x)"

text \<open>The float a decimal numeral denotes, as \<^verbatim>\<open>12.5\<close> or \<^verbatim>\<open>0.8\<close> in a table.\<close>

definition float_lit :: "rat \<Rightarrow> pyval" where
  "float_lit x = FloatV (double_of (x < 0) \<bar>x\<bar>)"

subsection \<open>Operations\<close>

text \<open>Truth value of a Python object, as \<^verbatim>\<open>if not data\<close> tests it.\<close>

fun truthy :: "pyval \<Rightarrow> bool" where
  "truthy (IntV n) = (n \<noteq> 0)"
| "truthy (FloatV (Finite s m)) = (m \<noteq> 0)"
| "truthy (FloatV (Infinity s)) = True"
| "truthy (FloatV NaN) = True"
| "truthy (Dict kvs) = (kvs \<noteq> [])"

text \<open>\<^verbatim>\<open>d.get(key, default)\<close>; on a number it raises AttributeError.\<close>

fun dict_get :: "pyval \<Rightarrow> string \<Rightarrow> pyval \<Rightarrow> py_error + pyval" where
  "dict_get (Dict kvs) key dflt = Inr (case map_of kvs key of Some v \<Rightarrow> v | None \<Rightarrow> dflt)"
| "dict_get (IntV n) key dflt = Inl AttributeError"
| "dict_get (FloatV x) key dflt = Inl AttributeError"

text \<open>\<^verbatim>\<open>d.items()\<close>.\<close>

fun dict_items :: "pyval \<Rightarrow> py_error + (string \<times> pyval) list" where
  "dict_items (Dict kvs) = Inr kvs"
| "dict_items (IntV n) = Inl AttributeError"
| "dict_items (FloatV x) = Inl AttributeError"

text \<open>
  The conversion of an int to a float, which the operators apply to an int operand beside
  a float: correctly rounded, OverflowError when the int is too large for a float.
\<close>

definition float_of_int :: "int \<Rightarrow> py_error + pyfloat" where
  "float_of_int a =
     (if overflow_bound \<le> of_int \<bar>a\<bar> then Inl OverflowError
      else Inr (Finite (a < 0) (fl (of_int \<bar>a\<bar>))))"

text \<open>
  The product of two floats never raises: it overflows to an infinity, and an infinity
  times a zero is \<^verbatim>\<open>nan\<close>.
\<close>

fun fmul :: "pyfloat \<Rightarrow> pyfloat \<Rightarrow> pyfloat" where
  "fmul (Finite s m) (Finite t n) = double_of (s \<noteq> t) (m * n)"
| "fmul (Finite s m) (Infinity t) = (if m = 0 then NaN else Infinity (s \<noteq> t))"
| "fmul (Infinity s) (Finite t n) = (if n = 0 then NaN else Infinity (s \<noteq> t))"
| "fmul (Infinity s) (Infinity t) = Infinity (s \<noteq> t)"
| "fmul NaN y = NaN"
| "fmul (Finite s m) NaN = NaN"
| "fmul (Infinity s) NaN = NaN"

text \<open>The quotient of two floats raises ZeroDivisionError on a zero divisor.\<close>

fun fdiv :: "pyfloat \<Rightarrow> pyfloat \<Rightarrow> py_error + pyfloat" where
  "fdiv x (Finite t n) =
     (if n = 0 then Inl ZeroDivisionError
      else Inr (case x of Finite s m \<Rightarrow> double_of (s \<noteq> t) (m / n)
                | Infinity s \<Rightarrow> Infinity (s \<noteq> t)
                | NaN \<Rightarrow> NaN))"
| "fdiv x (Infinity t) =
     Inr (case x of Finite s m \<Rightarrow> Finite (s \<noteq> t) 0 | Infinity s \<Rightarrow> NaN | NaN \<Rightarrow> NaN)"
| "fdiv x NaN = Inr NaN"

text \<open>
  The operators \<^verbatim>\<open>*\<close> and \<^verbatim>\<open>/\<close>. The product of two ints is an int; with a float
  operand the int is converted first. The quotient is always a float: that of two ints
  is the correctly rounded exact quotient, OverflowError when it is too large. A
  dictionary operand raises TypeError.
\<close>

fun py_mul :: "pyval \<Rightarrow> pyval \<Rightarrow> py_error + pyval" where
  "py_mul (IntV a) (IntV b) = Inr (IntV (a * b))"
| "py_mul (IntV a) (FloatV y) = ebind (float_of_int a) (\<lambda>x. Inr (FloatV (fmul x y)))"
| "py_mul (FloatV x) (IntV b) = ebind (float_of_int b) (\<lambda>y. Inr (FloatV (fmul x y)))"
| "py_mul (FloatV x) (FloatV y) = Inr (FloatV (fmul x y))"
| "py_mul (Dict kvs) y = Inl TypeError"
| "py_mul (IntV a) (Dict kvs) = Inl TypeError"
| "py_mul (FloatV x) (Dict kvs) = Inl TypeError"

fun py_div :: "pyval \<Rightarrow> pyval \<Rightarrow> py_error + pyval" where
  "py_div (IntV a) (IntV b) =
     (if b = 0 then Inl ZeroDivisionError
      else if overflow_bound \<le> of_int \<bar>a\<bar> / of_int \<bar>b\<bar> then Inl OverflowError
      else Inr (FloatV (Finite ((a < 0) \<noteq> (b < 0)) (fl (of_int \<bar>a\<bar> / of_int \<bar>b\<bar>)))))"
| "py_div (IntV a) (FloatV y) =
     ebind (float_of_int a) (\<lambda>x. ebind (fdiv x y) (\<lambda>z. Inr (FloatV z)))"
| "py_div (FloatV x) (IntV b) =
     ebind (float_of_int b) (\<lambda>y. ebind (fdiv x y) (\<lambda>z. Inr (FloatV z)))"
| "py_div (FloatV x) (FloatV y) = ebind (fdiv x y) (\<lambda>z. Inr (FloatV z))"
| "py_div (Dict kvs) y = Inl TypeError"
| "py_div (IntV a) (Dict kvs) = Inl TypeError"
| "py_div (FloatV x) (Dict kvs) = Inl TypeError"

text \<open>
  \<^verbatim>\<open>round(x)\<close>: the int nearest to the value of the float, a tie to the even one;
  \<^verbatim>\<open>round(inf)\<close> raises OverflowError and \<^verbatim>\<open>round(nan)\<close> raises ValueError.
\<close>

fun py_round :: "pyval \<Rightarrow> py_error + int" where
  "py_round (IntV n) = Inr n"
| "py_round (FloatV (Finite s m)) = Inr (round_half_even (signed s m))"
| "py_round (FloatV (Infinity s)) = Inl OverflowError"
| "py_round (FloatV NaN) = Inl ValueError"
| "py_round (Dict kvs) = Inl TypeError"

text \<open>\<^verbatim>\<open>int(x)\<close>: a float is truncated towards zero.\<close>

fun py_int :: "pyval \<Rightarrow> py_error + int" where
  "py_int (IntV n) = Inr n"
| "py_int (FloatV (Finite s m)) = Inr (if s then - \<lfloor>m\<rfloor> else \<lfloor>m\<rfloor>)"
| "py_int (FloatV (Infinity s)) = Inl OverflowError"
| "py_int (FloatV NaN) = Inl ValueError"
| "py_int (Dict kvs) = Inl TypeError"

text \<open>
  \<^verbatim>\<open>round(x, 2)\<close> on a float: the value of the float is rounded to two decimal places,
  a tie to the even neighbour, and the float nearest to that decimal is the result. A
  float of \<open>2 ^ 52\<close> or more is a whole number and is its own result, so nothing
  overflows; \<^verbatim>\<open>inf\<close> and \<^verbatim>\<open>nan\<close> stay as they are.
\<close>

fun py_round2 :: "pyfloat \<Rightarrow> pyfloat" where
  "py_round2 (Finite s m) = Finite s (fl (of_int (round_half_even (m * 100)) / 100))"
| "py_round2 (Infinity s) = Infinity s"
| "py_round2 NaN = NaN"

subsection \<open>Formatting\<close>

text \<open>
  \<^verbatim>\<open>format_percentage\<close>, line 28: \<^verbatim>\<open>f"{number:.2f}"\<close>, the decimal numeral with two
  places nearest to the value of the float (a tie to the even neighbour), with a minus
  sign when the sign bit is set; an int is converted to a float first; a dictionary has
  no such format.
\<close>

definition digit_char :: "nat \<Rightarrow> char" where
  "digit_char n = ''0123456789'' ! (n mod 10)"

function decimal :: "nat \<Rightarrow> string" where
  "decimal n = (if n < 10 then [digit_char n] else decimal (n div 10) @ [digit_char n])"
  by pat_completeness auto
termination
  by (relation "measure id") auto

declare decimal.simps [simp del]

fun format_float :: "pyfloat \<Rightarrow> string" where
  "format_float (Finite s m) =
     (let c = nat (round_half_even (m * 100))
      in (if s then ''-'' else []) @ decimal (c div 100) @ ''.''
         @ [digit_char (c div 10), digit_char c])"
| "format_float (Infinity s) = (if s then ''-inf'' else ''inf'')"
| "format_float NaN = ''nan''"

fun format_percentage :: "pyval \<Rightarrow> py_error + string" where
  "format_percentage (FloatV x) = Inr (format_float x)"
| "format_percentage (IntV n) = ebind (float_of_int n) (\<lambda>x. Inr (format_float x))"
| "format_percentage (Dict kvs) = Inl TypeError"

section \<open>String literals of the source\<close>

text \<open>
  A Python \<^verbatim>\<open>str\<close> is modelled by its UTF-8 bytes. The literals below are the bytes of
  the Korean literals of the source; the code points are given with each.
\<close>

definition k_elementary :: string where
  \<comment> \<open>U+CD08 U+B4F1, "elementary": the rate field and the column\<close>
  "k_elementary = [CHR 0xEC, CHR 0xB4, CHR 0x88, CHR 0xEB, CHR 0x93, CHR 0xB1]"

definition k_middle :: string where
  \<comment> \<open>U+C911 U+B4F1, "middle": the rate field and the column\<close>
  "k_middle = [CHR 0xEC, CHR 0xA4, CHR 0x91, CHR 0xEB, CHR 0x93, CHR 0xB1]"

definition k_personnel :: string where
  \<comment> \<open>U+C778 U+C6D0, "headcount": field of a high-school entry\<close>
  "k_personnel = [CHR 0xEC, CHR 0x9D, CHR 0xB8, CHR 0xEC, CHR 0x9B, CHR 0x90]"

definition k_occupancy :: string where
  \<comment> \<open>U+BC1C U+C0DD U+B960, "yield rate": field of a high-school entry\<close>
  "k_occupancy = [CHR 0xEB, CHR 0xB0, CHR 0x9C, CHR 0xEC, CHR 0x83, CHR 0x9D, CHR 0xEB, CHR 0xA5,
     CHR 0xA0]"

definition col_city :: string where
  \<comment> \<open>U+C2DC\<close>
  "col_city = [CHR 0xEC, CHR 0x8B, CHR 0x9C]"

definition col_region :: string where
  \<comment> \<open>U+C9C0 U+C5ED\<close>
  "col_region = [CHR 0xEC, CHR 0xA7, CHR 0x80, CHR 0xEC, CHR 0x97, CHR 0xAD]"

definition col_housing_type :: string where
  \<comment> \<open>U+C8FC U+D0DD U+C720 U+D615\<close>
  "col_housing_type = [CHR 0xEC, CHR 0xA3, CHR 0xBC, CHR 0xED, CHR 0x83, CHR 0x9D, CHR 0xEC,
     CHR 0x9C, CHR 0xA0, CHR 0xED, CHR 0x98, CHR 0x95]"

definition col_supply_type :: string where
  \<comment> \<open>U+ACF5 U+AE09 U+C720 U+D615\<close>
  "col_supply_type = [CHR 0xEA, CHR 0xB3, CHR 0xB5, CHR 0xEA, CHR 0xB8, CHR 0x89, CHR 0xEC,
     CHR 0x9C, CHR 0xA0, CHR 0xED, CHR 0x98, CHR 0x95]"

definition col_scale :: string where
  \<comment> \<open>U+C8FC U+D0DD U+ADDC U+BAA8\<close>
  "col_scale = [CHR 0xEC, CHR 0xA3, CHR 0xBC, CHR 0xED, CHR 0x83, CHR 0x9D, CHR 0xEA, CHR 0xB7,
     CHR 0x9C, CHR 0xEB, CHR 0xAA, CHR 0xA8]"

definition col_hs_personnel :: string where
  \<comment> \<open>U+ACE0 U+B4F1 - U+C138 U+B300 U+B2F9 space U+C778 U+AD6C U+C218\<close>
  "col_hs_personnel = [CHR 0xEA, CHR 0xB3, CHR 0xA0, CHR 0xEB, CHR 0x93, CHR 0xB1, CHR 0x2D,
     CHR 0xEC, CHR 0x84, CHR 0xB8, CHR 0xEB, CHR 0x8C, CHR 0x80, CHR 0xEB, CHR 0x8B, CHR 0xB9,
     CHR 0x20, CHR 0xEC, CHR 0x9D, CHR 0xB8, CHR 0xEA, CHR 0xB5, CHR 0xAC, CHR 0xEC, CHR 0x88,
     CHR 0x98]"

definition col_hs_rate :: string where
  \<comment> \<open>U+ACE0 U+B4F1 - U+D559 U+C0DD space U+C810 U+C720 U+C728\<close>
  "col_hs_rate = [CHR 0xEA, CHR 0xB3, CHR 0xA0, CHR 0xEB, CHR 0x93, CHR 0xB1, CHR 0x2D, CHR 0xED,
     CHR 0x95, CHR 0x99, CHR 0xEC, CHR 0x83, CHR 0x9D, CHR 0x20, CHR 0xEC, CHR 0xA0, CHR 0x90,
     CHR 0xEC, CHR 0x9C, CHR 0xA0, CHR 0xEC, CHR 0x9C, CHR 0xA8]"

section \<open>Access to the nested tables\<close>

text \<open>
  \<^verbatim>\<open>get_node(data, path, default)\<close>, lines 116 to 123: follow the keys while the node
  is a dictionary that has the key, else give the default.
\<close>

fun get_node :: "pyval \<Rightarrow> string list \<Rightarrow> pyval \<Rightarrow> pyval" where
  "get_node node [] dflt = node"
| "get_node (Dict kvs) (key # path) dflt =
     (case map_of kvs key of Some child \<Rightarrow> get_node child path dflt | None \<Rightarrow> dflt)"
| "get_node (IntV n) (key # path) dflt = dflt"
| "get_node (FloatV x) (key # path) dflt = dflt"

text \<open>
  \<^verbatim>\<open>set_node(data, path, value)\<close>, lines 125 to 129: \<^verbatim>\<open>setdefault(key, {})\<close> along
  all keys but the last, then a store at the last key. The source mutates \<^verbatim>\<open>data\<close>; the
  model returns the new root. \<^verbatim>\<open>path[-1]\<close> of an empty path raises IndexError, a
  number on the way has no \<^verbatim>\<open>setdefault\<close> (AttributeError) and takes no item
  (TypeError).
\<close>

fun set_node :: "pyval \<Rightarrow> string list \<Rightarrow> pyval \<Rightarrow> py_error + pyval" where
  "set_node node [] v = Inl IndexError"
| "set_node (Dict kvs) [key] v = Inr (Dict (AList.update key v kvs))"
| "set_node (IntV n) [key] v = Inl TypeError"
| "set_node (FloatV x) [key] v = Inl TypeError"
| "set_node (Dict kvs) (key # key2 # path) v =
     ebind (set_node (case map_of kvs key of Some child \<Rightarrow> child | None \<Rightarrow> Dict [])
              (key2 # path) v)
       (\<lambda>child'. Inr (Dict (AList.update key child' kvs)))"
| "set_node (IntV n) (key # key2 # path) v = Inl AttributeError"
| "set_node (FloatV x) (key # key2 # path) v = Inl AttributeError"

section \<open>The estimator\<close>

text \<open>The four texts \<^verbatim>\<open>calculate_student_counts\<close> shows when it turns a call down.\<close>

definition msg_select_all :: string where
  \<comment> \<open>line 163, "please select every item"\<close>
  "msg_select_all = [CHR 0xE2, CHR 0x9D, CHR 0x8C, CHR 0x20, CHR 0xEB, CHR 0xAA, CHR 0xA8, CHR 0xEB,
     CHR 0x93, CHR 0xA0, CHR 0x20, CHR 0xED, CHR 0x95, CHR 0xAD, CHR 0xEB, CHR 0xAA,
     CHR 0xA9, CHR 0xEC, CHR 0x9D, CHR 0x84, CHR 0x20, CHR 0xEC, CHR 0x84, CHR 0xA0,
     CHR 0xED, CHR 0x83, CHR 0x9D, CHR 0xED, CHR 0x95, CHR 0xB4, CHR 0xEC, CHR 0xA3,
     CHR 0xBC, CHR 0xEC, CHR 0x84, CHR 0xB8, CHR 0xEC, CHR 0x9A, CHR 0x94, CHR 0x2E]"

definition msg_units :: string where
  \<comment> \<open>line 166, "the number of units must be 1 or more"\<close>
  "msg_units = [CHR 0xE2, CHR 0x9A, CHR 0xA0, CHR 0xEF, CHR 0xB8, CHR 0x8F, CHR 0x20, CHR 0xEC,
     CHR 0x84, CHR 0xB8, CHR 0xEB, CHR 0x8C, CHR 0x80, CHR 0x20, CHR 0xEC, CHR 0x88,
     CHR 0x98, CHR 0xEB, CHR 0x8A, CHR 0x94, CHR 0x20, CHR 0x31, CHR 0x20, CHR 0xEC,
     CHR 0x9D, CHR 0xB4, CHR 0xEC, CHR 0x83, CHR 0x81, CHR 0xEC, CHR 0x9D, CHR 0xB4,
     CHR 0xEC, CHR 0x96, CHR 0xB4, CHR 0xEC, CHR 0x95, CHR 0xBC, CHR 0x20, CHR 0xED,
     CHR 0x95, CHR 0xA9, CHR 0xEB, CHR 0x8B, CHR 0x88, CHR 0xEB, CHR 0x8B, CHR 0xA4,
     CHR 0x21]"

definition msg_no_rate :: string where
  \<comment> \<open>line 171, "no student yield rate is set for this combination"\<close>
  "msg_no_rate = [CHR 0xE2, CHR 0x9A, CHR 0xA0, CHR 0xEF, CHR 0xB8, CHR 0x8F, CHR 0x20, CHR 0xED,
     CHR 0x95, CHR 0xB4, CHR 0xEB, CHR 0x8B, CHR 0xB9, CHR 0x20, CHR 0xEC, CHR 0xA1,
     CHR 0xB0, CHR 0xED, CHR 0x95, CHR 0xA9, CHR 0xEC, CHR 0x9D, CHR 0x98, CHR 0x20,
     CHR 0xED, CHR 0x95, CHR 0x99, CHR 0xEC, CHR 0x83, CHR 0x9D, CHR 0x20, CHR 0xEB,
     CHR 0xB0, CHR 0x9C, CHR 0xEC, CHR 0x83, CHR 0x9D, CHR 0xEB, CHR 0xA5, CHR 0xA0,
     CHR 0xEC, CHR 0x9D, CHR 0xB4, CHR 0x20, CHR 0xEC, CHR 0x84, CHR 0xA4, CHR 0xEC,
     CHR 0xA0, CHR 0x95, CHR 0xEB, CHR 0x90, CHR 0x98, CHR 0xEC, CHR 0xA7, CHR 0x80,
     CHR 0x20, CHR 0xEC, CHR 0x95, CHR 0x8A, CHR 0xEC, CHR 0x95, CHR 0x98, CHR 0xEC,
     CHR 0x8A, CHR 0xB5, CHR 0xEB, CHR 0x8B, CHR 0x88, CHR 0xEB, CHR 0x8B, CHR 0xA4,
     CHR 0x21]"

definition msg_no_high_school :: string where
  \<comment> \<open>line 176, "no high-school share is set for this combination"\<close>
  "msg_no_high_school = [CHR 0xE2, CHR 0x9A, CHR 0xA0, CHR 0xEF, CHR 0xB8, CHR 0x8F, CHR 0x20, CHR 0xED,
     CHR 0x95, CHR 0xB4, CHR 0xEB, CHR 0x8B, CHR 0xB9, CHR 0x20, CHR 0xEC, CHR 0xA1,
     CHR 0xB0, CHR 0xED, CHR 0x95, CHR 0xA9, CHR 0xEC, CHR 0x9D, CHR 0x98, CHR 0x20,
     CHR 0xEA, CHR 0xB3, CHR 0xA0, CHR 0xEB, CHR 0x93, CHR 0xB1, CHR 0x2D, CHR 0xED,
     CHR 0x95, CHR 0x99, CHR 0xEC, CHR 0x83, CHR 0x9D, CHR 0x20, CHR 0xEC, CHR 0xA0,
     CHR 0x90, CHR 0xEC, CHR 0x9C, CHR 0xA0, CHR 0xEC, CHR 0x9C, CHR 0xA8, CHR 0xEC,
     CHR 0x9D, CHR 0xB4, CHR 0x20, CHR 0xEC, CHR 0x84, CHR 0xA4, CHR 0xEC, CHR 0xA0,
     CHR 0x95, CHR 0xEB, CHR 0x90, CHR 0x98, CHR 0xEC, CHR 0xA7, CHR 0x80, CHR 0x20,
     CHR 0xEC, CHR 0x95, CHR 0x8A, CHR 0xEC, CHR 0x95, CHR 0x98, CHR 0xEC, CHR 0x8A,
     CHR 0xB5, CHR 0xEB, CHR 0x8B, CHR 0x88, CHR 0xEB, CHR 0x8B, CHR 0xA4, CHR 0x21]"


text \<open>
  The session state: \<^verbatim>\<open>st.session_state.rates\<close>, \<^verbatim>\<open>.high_school_rates\<close> and
  \<^verbatim>\<open>.calculated_results\<close>. A result row is the dictionary of lines 210 to 221.
\<close>

record calc_result =
  res_city :: string
  res_region :: string
  res_housing_type :: string
  res_supply_type :: string
  res_scale :: string
  res_units :: int
  res_kindergarten :: int
  res_elementary :: int
  res_middle :: int
  res_high :: int

record session_state =
  rates :: pyval
  high_school_rates :: pyval
  calculated_results :: "calc_result list"

text \<open>
  What a call does besides changing the state: it shows a rejection text, or it shows
  the counts (the table and the basis narrative are display only and are not modelled),
  or an exception leaves the function.
\<close>

datatype outcome = Rejected string | Estimated calc_result | Raised py_error

text \<open>
  \<^verbatim>\<open>all([city, region, housing_type, subtype, scale])\<close>: a select box without options
  yields \<^verbatim>\<open>None\<close>, which is as false as the empty string; both are the empty string
  here.
\<close>

definition all_selected :: "string list \<Rightarrow> bool" where
  "all_selected selection = list_all (\<lambda>s. s \<noteq> []) selection"

text \<open>
  The three kinds of expression of lines 184 to 187: \<^verbatim>\<open>units * rate / 100\<close>,
  \<^verbatim>\<open>e * 0.5\<close> and \<^verbatim>\<open>units * high_school_personnel * high_school_rate / 100\<close>.
  \<^verbatim>\<open>units\<close> and \<^verbatim>\<open>e\<close> are ints, \<^verbatim>\<open>0.5\<close> is the float one half, and the operators
  associate to the left.
\<close>

definition rate_share :: "int \<Rightarrow> pyval \<Rightarrow> py_error + pyval" where
  "rate_share units rate = ebind (py_mul (IntV units) rate) (\<lambda>p. py_div p (IntV 100))"

definition kindergarten_share :: "int \<Rightarrow> py_error + pyval" where
  "kindergarten_share e = py_mul (IntV e) (FloatV (Finite False (1 / 2)))"

definition headcount_share :: "int \<Rightarrow> pyval \<Rightarrow> pyval \<Rightarrow> py_error + pyval" where
  "headcount_share units high_school_personnel high_school_rate =
     ebind (ebind (py_mul (IntV units) high_school_personnel) (\<lambda>p. py_mul p high_school_rate))
       (\<lambda>p. py_div p (IntV 100))"

text \<open>
  Lines 179 to 204: the four lookups, the four counts, and the texts of the basis
  narrative. Of the texts only the exceptions are modelled: \<^verbatim>\<open>format_number\<close> raises
  when \<^verbatim>\<open>int()\<close> does (on the headcount, line 188; the other arguments are ints), and
  \<^verbatim>\<open>format_percentage\<close> is applied to the three rates (lines 188, 200 and 201). The
  result is \<open>(k, e, m, h)\<close>.
\<close>

definition student_counts :: "pyval \<Rightarrow> pyval \<Rightarrow> int \<Rightarrow> py_error + (int \<times> int \<times> int \<times> int)" where
  "student_counts data high_school_data units =
     ebind (dict_get data k_elementary (IntV 0)) (\<lambda>e_rate.
     ebind (dict_get data k_middle (IntV 0)) (\<lambda>m_rate.
     ebind (dict_get high_school_data k_personnel (IntV 0)) (\<lambda>high_school_personnel.
     ebind (dict_get high_school_data k_occupancy (IntV 0)) (\<lambda>high_school_rate.
     ebind (ebind (rate_share units e_rate) py_round) (\<lambda>e.
     ebind (ebind (kindergarten_share e) py_round) (\<lambda>k.
     ebind (ebind (rate_share units m_rate) py_round) (\<lambda>m.
     ebind (ebind (headcount_share units high_school_personnel high_school_rate) py_round)
       (\<lambda>h.
     ebind (py_int high_school_personnel) (\<lambda>h_basis_personnel.
     ebind (format_percentage high_school_rate) (\<lambda>h_basis_rate.
     ebind (format_percentage e_rate) (\<lambda>e_basis.
     ebind (format_percentage m_rate) (\<lambda>m_basis.
     Inr (k, e, m, h)))))))))))))"

text \<open>
  \<^verbatim>\<open>calculate_student_counts\<close>, lines 161 to 222. The result row is appended only
  after the counts and the texts exist, so an exception leaves the state as it was.
\<close>

definition calculate_student_counts ::
  "session_state \<Rightarrow> string \<Rightarrow> string \<Rightarrow> string \<Rightarrow> string \<Rightarrow> string \<Rightarrow> int
     \<Rightarrow> outcome \<times> session_state" where
  "calculate_student_counts st city region housing_type subtype scale units =
     (if \<not> all_selected [city, region, housing_type, subtype, scale]
        then (Rejected msg_select_all, st)
      else if units \<le> 0 then (Rejected msg_units, st)
      else
        let data = get_node (rates st) [region, housing_type, subtype, scale] (Dict []) in
        if \<not> truthy data then (Rejected msg_no_rate, st)
        else
          let high_school_data =
                get_node (high_school_rates st) [region, housing_type, subtype, scale] (Dict [])
          in
          if \<not> truthy high_school_data then (Rejected msg_no_high_school, st)
          else
            (case student_counts data high_school_data units of
               Inl err \<Rightarrow> (Raised err, st)
             | Inr (k, e, m, h) \<Rightarrow>
                 let result = \<lparr>res_city = city, res_region = region,
                                res_housing_type = housing_type, res_supply_type = subtype,
                                res_scale = scale, res_units = units, res_kindergarten = k,
                                res_elementary = e, res_middle = m, res_high = h\<rparr>
                 in (Estimated result,
                     st\<lparr>calculated_results := calculated_results st @ [result]\<rparr>)))"

text \<open>
  The example of the specification: region U+C11C U+C6B8 space U+AC15 U+B0A8 U+AD6C, one
  apartment entry with rates 12.50 and 6.00, headcount 0.80 and share 15.00.
\<close>

definition ex_city :: string where
  \<comment> \<open>U+C11C U+C6B8\<close>
  "ex_city = [CHR 0xEC, CHR 0x84, CHR 0x9C, CHR 0xEC, CHR 0x9A, CHR 0xB8]"

definition ex_region :: string where
  \<comment> \<open>U+C11C U+C6B8 space U+AC15 U+B0A8 U+AD6C\<close>
  "ex_region = [CHR 0xEC, CHR 0x84, CHR 0x9C, CHR 0xEC, CHR 0x9A, CHR 0xB8, CHR 0x20, CHR 0xEA,
     CHR 0xB0, CHR 0x95, CHR 0xEB, CHR 0x82, CHR 0xA8, CHR 0xEA, CHR 0xB5, CHR 0xAC]"

definition ex_housing_type :: string where
  \<comment> \<open>U+C544 U+D30C U+D2B8\<close>
  "ex_housing_type = [CHR 0xEC, CHR 0x95, CHR 0x84, CHR 0xED, CHR 0x8C, CHR 0x8C, CHR 0xED, CHR 0x8A,
     CHR 0xB8]"

definition ex_supply_type :: string where
  \<comment> \<open>U+BD84 U+C591\<close>
  "ex_supply_type = [CHR 0xEB, CHR 0xB6, CHR 0x84, CHR 0xEC, CHR 0x96, CHR 0x91]"

definition ex_scale :: string where
  \<comment> \<open>8 4 U+33A1\<close>
  "ex_scale = [CHR 0x38, CHR 0x34, CHR 0xE3, CHR 0x8E, CHR 0xA1]"

definition ex_state :: session_state where
  "ex_state =
     \<lparr>rates = Dict [(ex_region, Dict [(ex_housing_type, Dict [(ex_supply_type,
         Dict [(ex_scale, Dict [(k_elementary, float_lit (25 / 2)), (k_middle, float_lit 6)])])])])],
      high_school_rates = Dict [(ex_region, Dict [(ex_housing_type, Dict [(ex_supply_type,
         Dict [(ex_scale,
           Dict [(k_personnel, float_lit (4 / 5)), (k_occupancy, float_lit 15)])])])])],
      calculated_results = []\<rparr>"




text \<open>
  A number of magnitude at most \<open>10 ^ 100\<close>: with such rates and as many units no
  product of lines 184 to 187 overflows. \<open>bounded n\<close> is the same with the bound
  \<open>2 ^ n\<close>.
\<close>

fun moderate :: "pyval \<Rightarrow> bool" where
  "moderate (IntV a) = (\<bar>a\<bar> \<le> 10 ^ 100)"
| "moderate (FloatV (Finite s m)) = (0 \<le> m \<and> m \<le> 10 ^ 100)"
| "moderate (FloatV (Infinity s)) = False"
| "moderate (FloatV NaN) = False"
| "moderate (Dict kvs) = False"


fun bounded :: "nat \<Rightarrow> pyval \<Rightarrow> bool" where
  "bounded n (IntV a) = (\<bar>a\<bar> \<le> 2 ^ n)"
| "bounded n (FloatV (Finite s m)) = (0 \<le> m \<and> m \<le> 2 ^ n)"
| "bounded n (FloatV (Infinity s)) = False"
| "bounded n (FloatV NaN) = False"
| "bounded n (Dict kvs) = False"






section \<open>The spreadsheet import\<close>

text \<open>
  The frame \<^verbatim>\<open>pd.read_excel\<close> returns: its column names and its rows. A cell is a
  number, given by the decimal the sheet holds, blank (pandas reads it as \<^verbatim>\<open>nan\<close>) or
  text. \<^verbatim>\<open>float()\<close> of a number cell is the float nearest to the decimal. A text cell
  that \<^verbatim>\<open>float()\<close> can parse behaves as the number it parses to and is modelled as
  that number; on any other text \<^verbatim>\<open>float()\<close> raises ValueError. The five key fields of
  a row hold the text \<^verbatim>\<open>str()\<close> makes of the cell (lines 249 to 253). The header
  test comes before any row is read, so a field of a column the frame lacks is never
  read.
\<close>

datatype cell = Number rat | Blank | Text string

record xl_row =
  row_city :: string
  row_region :: string
  row_housing_type :: string
  row_supply_type :: string
  row_scale :: string
  row_elementary :: cell
  row_middle :: cell
  row_hs_personnel :: cell
  row_hs_rate :: cell

record dataframe =
  df_columns :: "string list"
  df_rows :: "xl_row list"

fun py_float :: "cell \<Rightarrow> py_error + pyfloat" where
  "py_float (Number x) = Inr (double_of (x < 0) \<bar>x\<bar>)"
| "py_float Blank = Inr NaN"
| "py_float (Text s) = Inl ValueError"

fun notna :: "cell \<Rightarrow> bool" where
  "notna Blank = False"
| "notna (Number x) = True"
| "notna (Text s) = True"

text \<open>The set \<^verbatim>\<open>required_cols\<close> of lines 228 to 238 and the text of line 241.\<close>

definition required_cols :: "string list" where
  "required_cols = [col_city, col_region, col_housing_type, col_supply_type, col_scale,
     k_elementary, k_middle, col_hs_personnel, col_hs_rate]"

definition msg_missing_cols :: string where
  \<comment> \<open>line 241, "the sheet lacks required columns (...)", with all nine names in the brackets\<close>
  "msg_missing_cols = [CHR 0xE2, CHR 0x9D, CHR 0x8C, CHR 0x20, CHR 0xEC, CHR 0x97, CHR 0x91, CHR 0xEC,
     CHR 0x85, CHR 0x80, CHR 0xEC, CHR 0x97, CHR 0x90, CHR 0x20, CHR 0xED, CHR 0x95,
     CHR 0x84, CHR 0xEC, CHR 0x88, CHR 0x98, CHR 0x20, CHR 0xEC, CHR 0x97, CHR 0xB4,
     CHR 0x28, CHR 0xEC, CHR 0x8B, CHR 0x9C, CHR 0x2C, CHR 0x20, CHR 0xEC, CHR 0xA7,
     CHR 0x80, CHR 0xEC, CHR 0x97, CHR 0xAD, CHR 0x2C, CHR 0x20, CHR 0xEC, CHR 0xA3,
     CHR 0xBC, CHR 0xED, CHR 0x83, CHR 0x9D, CHR 0xEC, CHR 0x9C, CHR 0xA0, CHR 0xED,
     CHR 0x98, CHR 0x95, CHR 0x2C, CHR 0x20, CHR 0xEA, CHR 0xB3, CHR 0xB5, CHR 0xEA,
     CHR 0xB8, CHR 0x89, CHR 0xEC, CHR 0x9C, CHR 0xA0, CHR 0xED, CHR 0x98, CHR 0x95,
     CHR 0x2C, CHR 0x20, CHR 0xEC, CHR 0xA3, CHR 0xBC, CHR 0xED, CHR 0x83, CHR 0x9D,
     CHR 0xEA, CHR 0xB7, CHR 0x9C, CHR 0xEB, CHR 0xAA, CHR 0xA8, CHR 0x2C, CHR 0x20,
     CHR 0xEC, CHR 0xB4, CHR 0x88, CHR 0xEB, CHR 0x93, CHR 0xB1, CHR 0x2C, CHR 0x20,
     CHR 0xEC, CHR 0xA4, CHR 0x91, CHR 0xEB, CHR 0x93, CHR 0xB1, CHR 0x2C, CHR 0x20,
     CHR 0xEA, CHR 0xB3, CHR 0xA0, CHR 0xEB, CHR 0x93, CHR 0xB1, CHR 0x2D, CHR 0xEC,
     CHR 0x84, CHR 0xB8, CHR 0xEB, CHR 0x8C, CHR 0x80, CHR 0xEB, CHR 0x8B, CHR 0xB9,
     CHR 0x20, CHR 0xEC, CHR 0x9D, CHR 0xB8, CHR 0xEA, CHR 0xB5, CHR 0xAC, CHR 0xEC,
     CHR 0x88, CHR 0x98, CHR 0x2C, CHR 0x20, CHR 0xEA, CHR 0xB3, CHR 0xA0, CHR 0xEB,
     CHR 0x93, CHR 0xB1, CHR 0x2D, CHR 0xED, CHR 0x95, CHR 0x99, CHR 0xEC, CHR 0x83,
     CHR 0x9D, CHR 0x20, CHR 0xEC, CHR 0xA0, CHR 0x90, CHR 0xEC, CHR 0x9C, CHR 0xA0,
     CHR 0xEC, CHR 0x9C, CHR 0xA8, CHR 0x29, CHR 0xEC, CHR 0x9D, CHR 0xB4, CHR 0x20,
     CHR 0xEB, CHR 0xB6, CHR 0x80, CHR 0xEC, CHR 0xA1, CHR 0xB1, CHR 0xED, CHR 0x95,
     CHR 0xA9, CHR 0xEB, CHR 0x8B, CHR 0x88, CHR 0xEB, CHR 0x8B, CHR 0xA4, CHR 0x2E]"

text \<open>\<^verbatim>\<open>round(float(cell), 2)\<close>, as lines 256, 268 and 269 apply it to a cell.\<close>

definition round_float :: "cell \<Rightarrow> py_error + pyval" where
  "round_float c = ebind (py_float c) (\<lambda>x. Inr (FloatV (py_round2 x)))"

text \<open>
  One turn of the loop of lines 247 to 270 on the two tables under construction. Lines
  257 to 259 and 265 to 270 are \<open>set_node\<close> written out: \<^verbatim>\<open>setdefault\<close> on the
  region, on the housing type and on the supply type, then a store at the scale.
\<close>

definition import_row :: "xl_row \<Rightarrow> pyval \<times> pyval \<Rightarrow> py_error + (pyval \<times> pyval)" where
  "import_row row tables =
     (case tables of (new_rates, new_high_school_rates) \<Rightarrow>
        let full_region = row_city row @ '' '' @ row_region row;
            h = row_housing_type row; s = row_supply_type row; sc = row_scale row
        in
        ebind (round_float (row_elementary row)) (\<lambda>e.
        ebind (round_float (row_middle row)) (\<lambda>m.
        ebind (set_node new_rates [full_region, h, s, sc]
                 (Dict [(k_elementary, e), (k_middle, m)])) (\<lambda>new_rates'.
        let high_school_personnel = row_hs_personnel row;
            high_school_rate = row_hs_rate row
        in
        if notna high_school_personnel \<and> notna high_school_rate
           \<and> high_school_personnel \<noteq> Text [] \<and> high_school_rate \<noteq> Text []
        then
          ebind (round_float high_school_personnel) (\<lambda>p.
          ebind (round_float high_school_rate) (\<lambda>q.
          ebind (set_node new_high_school_rates [full_region, h, s, sc]
                   (Dict [(k_personnel, p), (k_occupancy, q)])) (\<lambda>new_high_school_rates'.
          Inr (new_rates', new_high_school_rates'))))
        else Inr (new_rates', new_high_school_rates)))))"

fun import_rows :: "xl_row list \<Rightarrow> pyval \<times> pyval \<Rightarrow> py_error + (pyval \<times> pyval)" where
  "import_rows [] tables = Inr tables"
| "import_rows (row # rest) tables = ebind (import_row row tables) (import_rows rest)"

text \<open>
  \<^verbatim>\<open>process_excel\<close>, lines 225 to 280, on the frame read. The call shows the
  missing-columns text, or the success text with \<^verbatim>\<open>len(df)\<close>, or, from the
  \<^verbatim>\<open>except\<close> clause, the failure text with the exception. Only the success path
  assigns the two tables, at lines 273 and 274.
\<close>

datatype import_outcome = MissingColumns string | Imported nat | ImportFailed py_error

definition process_excel :: "session_state \<Rightarrow> dataframe \<Rightarrow> import_outcome \<times> session_state" where
  "process_excel st df =
     (if \<not> set required_cols \<subseteq> set (df_columns df) then (MissingColumns msg_missing_cols, st)
      else
        (case import_rows (df_rows df) (Dict [], Dict []) of
           Inl err \<Rightarrow> (ImportFailed err, st)
         | Inr (new_rates, new_high_school_rates) \<Rightarrow>
             (Imported (length (df_rows df)),
              st\<lparr>rates := new_rates, high_school_rates := new_high_school_rates\<rparr>)))"

text \<open>
  Notions for the statements about the import: the path a row is stored at, whether its
  two high-school cells pass the test of line 264, whether \<^verbatim>\<open>float()\<close> accepts a
  cell, and whether a table has an entry at a path as the estimator tests it.
\<close>

definition row_path :: "xl_row \<Rightarrow> string list" where
  "row_path row = [row_city row @ '' '' @ row_region row, row_housing_type row,
     row_supply_type row, row_scale row]"

definition hs_filled :: "xl_row \<Rightarrow> bool" where
  "hs_filled row = (notna (row_hs_personnel row) \<and> notna (row_hs_rate row)
     \<and> row_hs_personnel row \<noteq> Text [] \<and> row_hs_rate row \<noteq> Text [])"

fun is_text :: "cell \<Rightarrow> bool" where
  "is_text (Text s) = True"
| "is_text (Number x) = False"
| "is_text Blank = False"

definition convertible :: "xl_row \<Rightarrow> bool" where
  "convertible row = (\<not> is_text (row_elementary row) \<and> \<not> is_text (row_middle row)
     \<and> (if hs_filled row then \<not> is_text (row_hs_personnel row) \<and> \<not> is_text (row_hs_rate row)
        else True))"

definition configured :: "pyval \<Rightarrow> string list \<Rightarrow> bool" where
  "configured table path = truthy (get_node table path (Dict []))"

fun dict_depth :: "nat \<Rightarrow> pyval \<Rightarrow> bool" where
  "dict_depth 0 node = True"
| "dict_depth (Suc n) (Dict kvs) = list_all (\<lambda>kv. dict_depth n (snd kv)) kvs"
| "dict_depth (Suc n) (IntV a) = False"
| "dict_depth (Suc n) (FloatV x) = False"

text \<open>
  Example rows: a row with all four rates, a later row with the same key, other rates and
  blank high-school cells, a row whose district has two words, and a row whose
  elementary-rate cell is blank.
\<close>

definition ex_row :: xl_row where
  "ex_row = \<lparr>row_city = ''A'', row_region = ''B'', row_housing_type = ''apt'',
     row_supply_type = ''sale'', row_scale = ''84'', row_elementary = Number (25 / 2),
     row_middle = Number 6, row_hs_personnel = Number (4 / 5), row_hs_rate = Number 15\<rparr>"

definition ex_row_later :: xl_row where
  "ex_row_later = ex_row\<lparr>row_elementary := Number 13, row_middle := Number 7,
     row_hs_personnel := Blank, row_hs_rate := Blank\<rparr>"

definition ex_row_spaced :: xl_row where
  "ex_row_spaced = ex_row\<lparr>row_region := ''B C''\<rparr>"

definition ex_row_blank :: xl_row where
  "ex_row_blank = ex_row\<lparr>row_elementary := Blank\<rparr>"

section \<open>The export\<close>

text \<open>\<^verbatim>\<open>r.split(" ")\<close>: the pieces between all the spaces of \<^verbatim>\<open>r\<close>.\<close>

fun str_split :: "char \<Rightarrow> string \<Rightarrow> string list" where
  "str_split sep [] = [[]]"
| "str_split sep (c # cs) =
     (if c = sep then [] # str_split sep cs
      else (case str_split sep cs of [] \<Rightarrow> [[c]] | w # ws \<Rightarrow> (c # w) # ws))"

text \<open>
  Lines 474 and 475: \<^verbatim>\<open>r.split(" ")[0] if " " in r else r\<close> and
  \<^verbatim>\<open>r.split(" ")[1] if " " in r else r\<close>. With a space in \<^verbatim>\<open>r\<close> the split has
  at least two pieces.
\<close>

definition export_city :: "string \<Rightarrow> string" where
  "export_city r =
     (if CHR '' '' \<in> set r
      then (case str_split (CHR '' '') r of a # rest \<Rightarrow> a | [] \<Rightarrow> r)
      else r)"

definition export_region :: "string \<Rightarrow> string" where
  "export_region r =
     (if CHR '' '' \<in> set r
      then (case str_split (CHR '' '') r of a # b # rest \<Rightarrow> b | [a] \<Rightarrow> r | [] \<Rightarrow> r)
      else r)"

record export_row =
  out_city :: string
  out_region :: string
  out_housing_type :: string
  out_supply_type :: string
  out_scale :: string
  out_elementary :: string
  out_middle :: string
  out_hs_personnel :: string
  out_hs_rate :: string

text \<open>
  Lines 481 to 500: the chain of \<^verbatim>\<open>.get(key, {})\<close> into the high-school table, and
  the formatted field of the entry found there, or the text \<^verbatim>\<open>0.00\<close> when that entry
  is empty. The default of the lookups of a field is the float \<^verbatim>\<open>0.0\<close>.
\<close>

definition hs_lookup :: "pyval \<Rightarrow> string \<Rightarrow> string \<Rightarrow> string \<Rightarrow> string \<Rightarrow> py_error + pyval" where
  "hs_lookup hs r t s sc =
     ebind (dict_get hs r (Dict [])) (\<lambda>a.
     ebind (dict_get a t (Dict [])) (\<lambda>b.
     ebind (dict_get b s (Dict [])) (\<lambda>c.
     dict_get c sc (Dict []))))"

definition hs_field ::
  "pyval \<Rightarrow> string \<Rightarrow> string \<Rightarrow> string \<Rightarrow> string \<Rightarrow> string \<Rightarrow> py_error + string" where
  "hs_field hs r t s sc key =
     ebind (hs_lookup hs r t s sc) (\<lambda>entry.
       if truthy entry then ebind (dict_get entry key (FloatV (Finite False 0))) format_percentage
       else Inr ''0.00'')"

text \<open>
  The comprehension \<^verbatim>\<open>rate_data\<close> of lines 472 to 506: one row per leaf of the rate
  table, in the order of the dictionaries.
\<close>

fun concat_map_e :: "('a \<Rightarrow> 'e + 'b list) \<Rightarrow> 'a list \<Rightarrow> 'e + 'b list" where
  "concat_map_e f [] = Inr []"
| "concat_map_e f (x # xs) =
     ebind (f x) (\<lambda>ys. ebind (concat_map_e f xs) (\<lambda>zs. Inr (ys @ zs)))"

definition rate_row ::
  "pyval \<Rightarrow> string \<Rightarrow> string \<Rightarrow> string \<Rightarrow> string \<Rightarrow> pyval \<Rightarrow> py_error + export_row" where
  "rate_row hs r t s sc v =
     ebind (ebind (dict_get v k_elementary (FloatV (Finite False 0))) format_percentage) (\<lambda>e.
     ebind (ebind (dict_get v k_middle (FloatV (Finite False 0))) format_percentage) (\<lambda>m.
     ebind (hs_field hs r t s sc k_personnel) (\<lambda>p.
     ebind (hs_field hs r t s sc k_occupancy) (\<lambda>q.
     Inr \<lparr>out_city = export_city r, out_region = export_region r, out_housing_type = t,
          out_supply_type = s, out_scale = sc, out_elementary = e, out_middle = m,
          out_hs_personnel = p, out_hs_rate = q\<rparr>))))"

definition rate_data :: "session_state \<Rightarrow> py_error + export_row list" where
  "rate_data st =
     ebind (dict_items (rates st)) (concat_map_e (\<lambda>(r, types).
     ebind (dict_items types) (concat_map_e (\<lambda>(t, subtypes).
     ebind (dict_items subtypes) (concat_map_e (\<lambda>(s, scales).
     ebind (dict_items scales) (concat_map_e (\<lambda>(sc, v).
     ebind (rate_row (high_school_rates st) r t s sc v) (\<lambda>row. Inr [row])))))))))"

section \<open>The result list and removal by position\<close>

text \<open>
  Lines 423 to 429 of \<^verbatim>\<open>main\<close>: \<^verbatim>\<open>original_indices\<close> are the 0-based positions read
  off the selected labels, and
  \<^verbatim>\<open>new_results = [result for i, result in enumerate(calculated_results)
                  if i not in original_indices]\<close>.
\<close>

definition new_results :: "int list \<Rightarrow> 'a list \<Rightarrow> 'a list" where
  "new_results original_indices results =
     map snd (filter (\<lambda>(i, result). int i \<notin> set original_indices)
       (enumerate 0 results))"

section \<open>Properties\<close>

subsection \<open>Rounding to an integer\<close>

lemma floor_rat_numeral_div:
  "\<lfloor>numeral a / numeral b :: rat\<rfloor> = numeral a div numeral b"
  by (metis floor_divide_of_int_eq of_int_numeral)

lemma ceiling_rat_numeral_div:
  "\<lceil>numeral a / numeral b :: rat\<rceil> = - (- numeral a div numeral b)"
  by (metis ceiling_def divide_minus_left floor_divide_of_int_eq of_int_neg_numeral of_int_numeral)

lemma bitlen_pos: "0 < x \<Longrightarrow> bitlen x = bitlen (x div 2) + 1"
  by (subst compute_bitlen) simp

lemmas round_eval = round_half_even_def Let_def floor_rat_numeral_div

lemmas fl_eval = fl_def ilog2_def round_eval ceiling_rat_numeral_div bitlen_pos

lemmas float_eval = fl_eval overflow_bound_def double_of_def float_of_int_def float_lit_def
  signed_def

lemmas share_eval = rate_share_def kindergarten_share_def headcount_share_def float_eval

lemmas ex_strings = ex_city_def ex_region_def ex_housing_type_def ex_supply_type_def ex_scale_def
  k_elementary_def k_middle_def k_personnel_def k_occupancy_def



lemma round_half_even_le: "x \<le> of_int n \<Longrightarrow> round_half_even x \<le> n"
  unfolding round_half_even_def Let_def
  by (auto simp: floor_le_iff le_floor_iff)

lemma round_half_even_ge: "of_int n \<le> x \<Longrightarrow> n \<le> round_half_even x"
  unfolding round_half_even_def Let_def
  by (auto simp: le_floor_iff) linarith+



subsection \<open>Rounding to binary64\<close>

text \<open>\<open>ilog2 x\<close> is the exponent of the power of two at or below \<open>x\<close>.\<close>

lemma ilog2_bounds:
  assumes "0 < x"
  shows "2 powi (ilog2 x) \<le> x" and "x < 2 powi (ilog2 x + 1)"
proof -
  have "2 powi (ilog2 x) \<le> x \<and> x < 2 powi (ilog2 x + 1)"
  proof (cases "1 \<le> x")
    case True
    define N where "N = \<lfloor>x\<rfloor>"
    from True have N: "0 < N" by (simp add: N_def)
    define b where "b = bitlen N"
    from bitlen_bounds [OF N] have lo: "2 ^ nat (b - 1) \<le> N" and hi: "N < 2 ^ nat b"
      by (simp_all add: b_def)
    from N have b: "1 \<le> b" unfolding b_def
      using bitlen_eq_zero_iff [of N] bitlen_nonneg [of N] by linarith
    have e: "ilog2 x = b - 1" using True by (simp add: ilog2_def N_def b_def)
    have p1: "(2::rat) powi (b - 1) = 2 ^ nat (b - 1)"
      using b by (simp add: power_int_def)
    have p2: "(2::rat) powi b = 2 ^ nat b"
      using b by (simp add: power_int_def)
    have "of_int (2 ^ nat (b - 1)) \<le> (of_int N :: rat)" using lo by (simp only: of_int_le_iff)
    also have "\<dots> \<le> x" unfolding N_def by linarith
    finally have 1: "2 powi (b - 1) \<le> x" by (simp add: p1)
    have "x < of_int (N + 1)" unfolding N_def by linarith
    also have "\<dots> \<le> of_int (2 ^ nat b)" using hi by (simp only: of_int_le_iff)
    finally have 2: "x < 2 powi b" by (simp add: p2)
    from 1 2 show ?thesis by (simp add: e)
  next
    case False
    define s where "s = 1 / x"
    from False assms have s: "1 < s" by (simp add: s_def)
    define M where "M = \<lceil>s\<rceil> - 1"
    from s have M: "0 < M" unfolding M_def by linarith
    define b where "b = bitlen M"
    from bitlen_bounds [OF M] have lo: "2 ^ nat (b - 1) \<le> M" and hi: "M < 2 ^ nat b"
      by (simp_all add: b_def)
    from M have b: "1 \<le> b" unfolding b_def
      using bitlen_eq_zero_iff [of M] bitlen_nonneg [of M] by linarith
    have e: "ilog2 x = - b" using False by (simp add: ilog2_def M_def b_def s_def)
    have "s \<le> of_int (M + 1)" unfolding M_def by linarith
    also have "\<dots> \<le> of_int (2 ^ nat b)" using hi by (simp only: of_int_le_iff)
    finally have s_hi: "s \<le> 2 ^ nat b" by simp
    have "of_int (2 ^ nat (b - 1)) \<le> (of_int M :: rat)" using lo by (simp only: of_int_le_iff)
    also have "of_int M < s" unfolding M_def by linarith
    finally have s_lo: "2 ^ nat (b - 1) < s" by simp
    have p1: "(2::rat) powi (- b) = 1 / 2 ^ nat b"
      using b by (simp add: power_int_def field_simps)
    have p2: "(2::rat) powi (- b + 1) = 1 / 2 ^ nat (b - 1)"
      using b by (auto simp: power_int_def field_simps nat_diff_distrib)
    from s_hi assms have 1: "1 / 2 ^ nat b \<le> x"
      by (simp add: s_def field_simps)
    from s_lo assms have 2: "x < 1 / 2 ^ nat (b - 1)"
      by (simp add: s_def field_simps)
    have "- b + 1 = 1 - b" by simp
    with p2 have p2': "(2::rat) powi (1 - b) = 1 / 2 ^ nat (b - 1)" by simp
    from 1 2 show ?thesis by (simp add: e p1 p2')
  qed
  then show "2 powi (ilog2 x) \<le> x" and "x < 2 powi (ilog2 x + 1)" by simp_all
qed

lemma fl_nonneg: "0 \<le> fl x"
proof (cases "x \<le> 0")
  case True
  then show ?thesis by (simp add: fl_def)
next
  case False
  define q :: rat where "q = 2 powi (max (ilog2 x) (- 1022) - 52)"
  have q: "0 < q" by (simp add: q_def)
  from False q have "0 \<le> x / q" by simp
  then have "0 \<le> round_half_even (x / q)"
    using round_half_even_ge [of 0 "x / q"] by simp
  with q False show ?thesis by (simp add: fl_def Let_def q_def [symmetric])
qed

lemma fl_zero: "fl 0 = 0"
  by (simp add: fl_def)

text \<open>Rounding to binary64 does not pass a power of two.\<close>

lemma fl_le_pow:
  assumes "x \<le> 2 ^ n"
  shows "fl x \<le> 2 ^ n"
proof (cases "0 < x")
  case False
  then show ?thesis by (simp add: fl_def)
next
  case True
  define k where "k = max (ilog2 x) (- 1022)"
  define q :: rat where "q = 2 powi (k - 52)"
  have q: "0 < q" by (simp add: q_def)
  have fl: "fl x = of_int (round_half_even (x / q)) * q"
    using True by (simp add: fl_def Let_def q_def k_def)
  have "(2::rat) powi (ilog2 x) \<le> 2 powi (int n)"
    using ilog2_bounds(1) [OF True] assms by simp
  then have "ilog2 x \<le> int n"
    using power_int_le_imp_le_exp [of "2::rat" "ilog2 x" "int n"] by simp
  then have k: "k \<le> int n" by (simp add: k_def)
  define j where "j = nat (int n - (k - 52))"
  have j: "int n = int j + (k - 52)" using k by (simp add: j_def)
  have "(2::rat) powi (int n) = 2 powi (int j) * 2 powi (k - 52)"
    unfolding j by (rule power_int_add) simp
  then have pn: "(2::rat) ^ n = 2 ^ j * q" by (simp add: q_def)
  have "x / q \<le> 2 ^ j" using assms q by (simp add: pn field_simps)
  then have "x / q \<le> of_int (2 ^ j)" by simp
  then have "round_half_even (x / q) \<le> 2 ^ j" by (rule round_half_even_le)
  then have "(of_int (round_half_even (x / q)) :: rat) \<le> of_int (2 ^ j)"
    by (simp only: of_int_le_iff)
  then have "fl x \<le> 2 ^ j * q" unfolding fl using q by (simp add: mult_right_mono)
  then show ?thesis by (simp add: pn)
qed







lemma fl_100: "fl 100 = 100"
  by (simp add: fl_eval)

lemma pow_below_overflow: "n \<le> 1023 \<Longrightarrow> (2::rat) ^ n < overflow_bound"
proof -
  assume "n \<le> 1023"
  then have "(2::rat) ^ n \<le> 2 ^ 1023" by (intro power_increasing) simp_all
  also have "\<dots> < overflow_bound" by (simp add: overflow_bound_def)
  finally show ?thesis .
qed

lemma double_of_small:
  assumes "x \<le> 2 ^ n" "n \<le> 1023"
  shows "double_of s x = Finite s (fl x)" and "0 \<le> fl x" and "fl x \<le> 2 ^ n"
proof -
  from assms pow_below_overflow [of n] have "x < overflow_bound" by simp
  then show "double_of s x = Finite s (fl x)" by (simp add: double_of_def)
  show "0 \<le> fl x" by (rule fl_nonneg)
  show "fl x \<le> 2 ^ n" by (rule fl_le_pow) (rule assms(1))
qed



lemma float_of_int_100: "float_of_int 100 = Inr (Finite False 100)"
  by (simp add: float_eval)


subsection \<open>Products and quotients of bounded numbers\<close>







lemma moderate_bounded: "moderate v \<Longrightarrow> bounded 333 v"
proof (cases v rule: moderate.cases)
  case (1 a)
  assume "moderate v"
  with 1 have "\<bar>a\<bar> \<le> 10 ^ 100" by simp
  also have "(10::int) ^ 100 \<le> 2 ^ 333" by simp
  finally show ?thesis using 1 by simp
next
  case (2 s m)
  assume "moderate v"
  with 2 have m: "0 \<le> m" "m \<le> 10 ^ 100" by simp_all
  note m(2)
  also have "(10::rat) ^ 100 \<le> 2 ^ 333" by simp
  finally show ?thesis using 2 m(1) by simp
qed simp_all

lemma units_bounded: "0 < units \<Longrightarrow> units \<le> 10 ^ 100 \<Longrightarrow> bounded 333 (IntV units)"
  using moderate_bounded [of "IntV units"] by simp





lemma ebind_Inr_iff: "ebind m f = Inr y \<longleftrightarrow> (\<exists>x. m = Inr x \<and> f x = Inr y)"
  by (cases m) simp_all












text \<open>
  On floats the rate expression is three roundings: of \<^verbatim>\<open>units\<close>, of the product and of
  the quotient.
\<close>

lemma rate_share_binary64:
  assumes "0 < units" "units \<le> 10 ^ 100" "0 \<le> x" "x \<le> 10 ^ 100"
  shows "rate_share units (FloatV (Finite s x))
         = Inr (FloatV (Finite s (fl (fl (fl (of_int units) * x) / 100))))"
proof -
  from units_bounded [OF assms(1,2)] have u: "\<bar>units\<bar> \<le> 2 ^ 333" by simp
  then have u': "(of_int \<bar>units\<bar> :: rat) \<le> 2 ^ 333"
    by (metis of_int_le_iff of_int_numeral of_int_power)
  from u' pow_below_overflow [of 333] have "(of_int \<bar>units\<bar> :: rat) < overflow_bound" by simp
  with assms(1) have conv: "float_of_int units = Inr (Finite False (fl (of_int units)))"
    by (simp add: float_of_int_def)
  from assms(1) u' have fu: "0 \<le> fl (of_int units)" "fl (of_int units) \<le> 2 ^ 333"
    using fl_nonneg fl_le_pow [of "of_int units" 333] by simp_all
  from moderate_bounded [of "FloatV (Finite s x)"] assms(3,4) have x: "x \<le> 2 ^ 333" by simp
  from fu assms(3) x have "fl (of_int units) * x \<le> 2 ^ 333 * 2 ^ 333" by (intro mult_mono) simp_all
  then have prod: "fl (of_int units) * x \<le> 2 ^ 666" by simp
  have p: "double_of s (fl (of_int units) * x) = Finite s (fl (fl (of_int units) * x))"
    by (rule double_of_small(1) [OF prod]) simp
  from fl_nonneg [of "fl (of_int units) * x"] fl_le_pow [OF prod]
  have "fl (fl (of_int units) * x) / 100 \<le> 2 ^ 666" by simp
  then have q: "double_of s (fl (fl (of_int units) * x) / 100)
      = Finite s (fl (fl (fl (of_int units) * x) / 100))"
    by (rule double_of_small(1)) simp
  from conv p q show ?thesis
    by (simp add: rate_share_def float_of_int_100)
qed

subsection \<open>The four counts\<close>




lemma calculate_cases:
  "calculate_student_counts st city region housing_type subtype scale units = (out, st') \<Longrightarrow>
   (\<exists>m. out = Rejected m \<and> st' = st
        \<and> \<not> (all_selected [city, region, housing_type, subtype, scale] \<and> 0 < units
             \<and> truthy (get_node (rates st) [region, housing_type, subtype, scale] (Dict []))
             \<and> truthy (get_node (high_school_rates st) [region, housing_type, subtype, scale]
                   (Dict []))))
   \<or> (\<exists>err. out = Raised err \<and> st' = st)
   \<or> (\<exists>r. out = Estimated r \<and> st' = st\<lparr>calculated_results := calculated_results st @ [r]\<rparr>
        \<and> all_selected [city, region, housing_type, subtype, scale] \<and> 0 < units
        \<and> truthy (get_node (rates st) [region, housing_type, subtype, scale] (Dict []))
        \<and> truthy (get_node (high_school_rates st) [region, housing_type, subtype, scale]
              (Dict [])))"
  by (auto simp: calculate_student_counts_def Let_def split: if_splits sum.splits prod.splits)

lemma messages_distinct:
  "distinct [msg_select_all, msg_units, msg_no_rate, msg_no_high_school]"
  by (simp add: msg_select_all_def msg_units_def msg_no_rate_def msg_no_high_school_def)


lemma ex_estimate:
  "calculate_student_counts ex_state ex_city ex_region ex_housing_type ex_supply_type
     ex_scale 100
   = (Estimated \<lparr>res_city = ex_city, res_region = ex_region,
         res_housing_type = ex_housing_type, res_supply_type = ex_supply_type,
         res_scale = ex_scale, res_units = 100, res_kindergarten = 6, res_elementary = 12,
         res_middle = 6, res_high = 12\<rparr>,
      ex_state\<lparr>calculated_results := [\<lparr>res_city = ex_city, res_region = ex_region,
         res_housing_type = ex_housing_type, res_supply_type = ex_supply_type,
         res_scale = ex_scale, res_units = 100, res_kindergarten = 6, res_elementary = 12,
         res_middle = 6, res_high = 12\<rparr>]\<rparr>)"
  by (simp add: calculate_student_counts_def all_selected_def ex_state_def student_counts_def
      share_eval ex_strings)

subsection \<open>Stores and lookups in the nested tables\<close>

lemma list_all_update:
  "list_all P kvs \<Longrightarrow> P (k, v) \<Longrightarrow> list_all P (AList.update k v kvs)"
  by (induction kvs) auto

lemma dict_depth_child:
  "list_all (\<lambda>kv. dict_depth n (snd kv)) kvs \<Longrightarrow>
   dict_depth n (case map_of kvs key of Some child \<Rightarrow> child | None \<Rightarrow> Dict [])"
proof (cases "map_of kvs key")
  case None
  then show ?thesis by (cases n) simp_all
next
  case (Some child)
  assume all: "list_all (\<lambda>kv. dict_depth n (snd kv)) kvs"
  from Some have "(key, child) \<in> set kvs" by (rule map_of_SomeD)
  with all have "dict_depth n child" by (auto simp: list_all_iff)
  with Some show ?thesis by simp
qed

lemma set_node_succeeds:
  "path \<noteq> [] \<Longrightarrow> dict_depth (length path) node \<Longrightarrow>
   \<exists>node'. set_node node path v = Inr node' \<and> dict_depth (length path) node'"
proof (induction node path v rule: set_node.induct)
  case (2 kvs key v)
  then show ?case by (simp add: list_all_update)
next
  case (5 kvs key key2 path v)
  let ?child = "case map_of kvs key of Some child \<Rightarrow> child | None \<Rightarrow> Dict []"
  from "5.prems" have all: "list_all (\<lambda>kv. dict_depth (Suc (length path)) (snd kv)) kvs"
    by simp
  then have "dict_depth (length (key2 # path)) ?child"
    using dict_depth_child [of "Suc (length path)" kvs key] by simp
  with "5.IH" obtain child' where child': "set_node ?child (key2 # path) v = Inr child'"
    and depth: "dict_depth (length (key2 # path)) child'"
    by blast
  from all depth have "list_all (\<lambda>kv. dict_depth (Suc (length path)) (snd kv))
      (AList.update key child' kvs)"
    by (intro list_all_update) simp_all
  with child' show ?case by simp
qed simp_all

lemma get_node_empty: "path \<noteq> [] \<Longrightarrow> get_node (Dict []) path dflt = dflt"
  by (cases path) simp_all

lemma get_node_set_node:
  "set_node node path v = Inr node' \<Longrightarrow> length q = length path \<Longrightarrow>
   get_node node' q dflt = (if q = path then v else get_node node q dflt)"
proof (induction node path v arbitrary: node' q rule: set_node.induct)
  case (2 kvs key v)
  then obtain k where q: "q = [k]" by (cases q) auto
  from 2 show ?case by (auto simp: q update_conv')
next
  case (5 kvs key key2 path v)
  let ?child = "case map_of kvs key of Some child \<Rightarrow> child | None \<Rightarrow> Dict []"
  from "5.prems"(1) obtain child' where child': "set_node ?child (key2 # path) v = Inr child'"
    and node': "node' = Dict (AList.update key child' kvs)"
    by (auto simp: ebind_Inr_iff)
  from "5.prems"(2) obtain k qs where q: "q = k # qs" and len: "length qs = length (key2 # path)"
    by (cases q) auto
  from len have qs: "qs \<noteq> []" by auto
  show ?case
  proof (cases "k = key")
    case False
    then show ?thesis by (simp add: q node' update_conv')
  next
    case True
    have "get_node node' q dflt = get_node child' qs dflt"
      by (simp add: q node' True update_conv')
    also have "\<dots> = (if qs = key2 # path then v else get_node ?child qs dflt)"
      by (rule "5.IH" [OF child' len])
    also have "get_node ?child qs dflt = get_node (Dict kvs) q dflt"
      using qs by (cases "map_of kvs key") (simp_all add: q True get_node_empty)
    finally show ?thesis by (simp add: q True)
  qed
qed simp_all

subsection \<open>The import loop\<close>

lemma ebind_assoc: "ebind (ebind m f) g = ebind m (\<lambda>x. ebind (f x) g)"
  by (cases m) simp_all

lemma import_rows_append:
  "import_rows (xs @ ys) tables = ebind (import_rows xs tables) (import_rows ys)"
proof (induction xs arbitrary: tables)
  case Nil
  show ?case by simp
next
  case (Cons x xs)
  have "import_rows (xs @ ys) = (\<lambda>t. ebind (import_rows xs t) (import_rows ys))"
    by (rule ext) (rule Cons.IH)
  then show ?case by (simp add: ebind_assoc)
qed

lemma length_row_path: "length (row_path row) = 4"
  by (simp add: row_path_def)

lemma round_float_succeeds: "\<not> is_text c \<Longrightarrow> \<exists>v. round_float c = Inr v"
  by (cases c) (simp_all add: round_float_def)

lemma round_float_not_text: "round_float c = Inr v \<Longrightarrow> \<not> is_text c"
  by (cases c) (simp_all add: round_float_def)

lemma import_row_unfold:
  "import_row row (nr, nh) =
     ebind (round_float (row_elementary row)) (\<lambda>e.
     ebind (round_float (row_middle row)) (\<lambda>m.
     ebind (set_node nr (row_path row) (Dict [(k_elementary, e), (k_middle, m)])) (\<lambda>nr'.
     if hs_filled row
     then ebind (round_float (row_hs_personnel row)) (\<lambda>p.
          ebind (round_float (row_hs_rate row)) (\<lambda>q.
          ebind (set_node nh (row_path row) (Dict [(k_personnel, p), (k_occupancy, q)]))
            (\<lambda>nh'. Inr (nr', nh'))))
     else Inr (nr', nh))))"
  unfolding import_row_def Let_def row_path_def hs_filled_def prod.case append_Cons append_Nil
  by (rule refl)

lemma import_row_Inr:
  assumes "import_row row (nr, nh) = Inr (nr', nh')"
  shows "\<exists>e m. round_float (row_elementary row) = Inr e \<and> round_float (row_middle row) = Inr m
     \<and> set_node nr (row_path row) (Dict [(k_elementary, e), (k_middle, m)]) = Inr nr'
     \<and> (if hs_filled row
        then \<exists>p q. round_float (row_hs_personnel row) = Inr p
               \<and> round_float (row_hs_rate row) = Inr q
               \<and> set_node nh (row_path row) (Dict [(k_personnel, p), (k_occupancy, q)]) = Inr nh'
        else nh' = nh)"
  using assms by (auto simp: import_row_unfold ebind_Inr_iff split: if_splits)

lemma import_row_convertible:
  "import_row row (nr, nh) = Inr (nr', nh') \<Longrightarrow> convertible row"
  by (auto dest!: import_row_Inr dest: round_float_not_text simp: convertible_def
      split: if_splits)

lemma import_row_succeeds:
  assumes "convertible row" "dict_depth 4 nr" "dict_depth 4 nh"
  shows "\<exists>nr' nh'. import_row row (nr, nh) = Inr (nr', nh') \<and> dict_depth 4 nr' \<and> dict_depth 4 nh'"
proof -
  from assms(1) obtain e m where e: "round_float (row_elementary row) = Inr e"
    and m: "round_float (row_middle row) = Inr m"
    using round_float_succeeds [of "row_elementary row"]
      round_float_succeeds [of "row_middle row"]
    by (auto simp: convertible_def)
  have path: "row_path row \<noteq> []" "length (row_path row) = 4"
    by (simp_all add: row_path_def)
  from set_node_succeeds [of "row_path row" nr "Dict [(k_elementary, e), (k_middle, m)]"]
    path assms(2)
  obtain nr' where nr': "set_node nr (row_path row) (Dict [(k_elementary, e), (k_middle, m)])
      = Inr nr'" and d1: "dict_depth 4 nr'"
    by auto
  show ?thesis
  proof (cases "hs_filled row")
    case False
    with e m nr' d1 assms(3) show ?thesis
      by (simp add: import_row_unfold)
  next
    case True
    with assms(1) obtain p q where p: "round_float (row_hs_personnel row) = Inr p"
      and q: "round_float (row_hs_rate row) = Inr q"
      using round_float_succeeds [of "row_hs_personnel row"]
        round_float_succeeds [of "row_hs_rate row"]
      by (auto simp: convertible_def)
    from set_node_succeeds [of "row_path row" nh "Dict [(k_personnel, p), (k_occupancy, q)]"]
      path assms(3)
    obtain nh' where nh': "set_node nh (row_path row) (Dict [(k_personnel, p), (k_occupancy, q)])
        = Inr nh'" and d2: "dict_depth 4 nh'"
      by auto
    from True e m nr' p q nh' have "import_row row (nr, nh) = Inr (nr', nh')"
      by (simp add: import_row_unfold)
    with d1 d2 show ?thesis by blast
  qed
qed

lemma import_rows_succeeds:
  "list_all convertible rows \<Longrightarrow> dict_depth 4 nr \<Longrightarrow> dict_depth 4 nh \<Longrightarrow>
   \<exists>nr' nh'. import_rows rows (nr, nh) = Inr (nr', nh') \<and> dict_depth 4 nr' \<and> dict_depth 4 nh'"
proof (induction rows arbitrary: nr nh)
  case Nil
  then show ?case by simp
next
  case (Cons row rows)
  from Cons.prems obtain a b where ab: "import_row row (nr, nh) = Inr (a, b)"
    and depth: "dict_depth 4 a" "dict_depth 4 b"
    using import_row_succeeds [of row nr nh] by auto
  from Cons.IH [OF _ depth] Cons.prems(1) ab show ?case by simp
qed

lemma import_rows_convertible:
  "import_rows rows tables = Inr tables' \<Longrightarrow> list_all convertible rows"
proof (induction rows arbitrary: tables)
  case Nil
  show ?case by simp
next
  case (Cons row rows)
  from Cons.prems obtain mid where mid: "import_row row tables = Inr mid"
    and rest: "import_rows rows mid = Inr tables'"
    by (auto simp: ebind_Inr_iff)
  from mid have "convertible row"
    using import_row_convertible [of row "fst tables" "snd tables" "fst mid" "snd mid"] by simp
  with Cons.IH [OF rest] show ?case by simp
qed

lemma import_rows_elsewhere:
  assumes "import_rows rows (nr, nh) = Inr (nr', nh')" and "length q = 4"
  shows "(list_all (\<lambda>x. row_path x \<noteq> q) rows \<longrightarrow> get_node nr' q dflt = get_node nr q dflt)
     \<and> (list_all (\<lambda>x. \<not> (hs_filled x \<and> row_path x = q)) rows \<longrightarrow>
          get_node nh' q dflt = get_node nh q dflt)"
  using assms(1)
proof (induction rows arbitrary: nr nh)
  case Nil
  then show ?case by simp
next
  case (Cons row rows)
  from Cons.prems obtain a b where ab: "import_row row (nr, nh) = Inr (a, b)"
    and rest: "import_rows rows (a, b) = Inr (nr', nh')"
    by (auto simp: ebind_Inr_iff)
  from import_row_Inr [OF ab] obtain e m where
    a: "set_node nr (row_path row) (Dict [(k_elementary, e), (k_middle, m)]) = Inr a"
    and b: "if hs_filled row
        then \<exists>p q. set_node nh (row_path row) (Dict [(k_personnel, p), (k_occupancy, q)]) = Inr b
        else b = nh"
    by (auto split: if_splits)
  have len: "length q = length (row_path row)"
    by (simp add: assms(2) length_row_path)
  have "row_path row \<noteq> q \<Longrightarrow> get_node a q dflt = get_node nr q dflt"
    using get_node_set_node [OF a len] by auto
  moreover have "\<not> (hs_filled row \<and> row_path row = q) \<Longrightarrow> get_node b q dflt = get_node nh q dflt"
    using b get_node_set_node [OF _ len, of nh _ b dflt] by (auto split: if_splits)
  ultimately show ?case
    using Cons.IH [OF rest] by auto
qed

lemma import_rows_last:
  assumes run: "import_rows (pre @ row # post) tables = Inr (nr', nh')"
  shows "\<exists>e m. round_float (row_elementary row) = Inr e \<and> round_float (row_middle row) = Inr m
      \<and> (list_all (\<lambda>x. row_path x \<noteq> row_path row) post \<longrightarrow>
           get_node nr' (row_path row) dflt = Dict [(k_elementary, e), (k_middle, m)])"
    and "hs_filled row \<Longrightarrow>
      \<exists>p q. round_float (row_hs_personnel row) = Inr p \<and> round_float (row_hs_rate row) = Inr q
      \<and> (list_all (\<lambda>x. \<not> (hs_filled x \<and> row_path x = row_path row)) post \<longrightarrow>
           get_node nh' (row_path row) dflt = Dict [(k_personnel, p), (k_occupancy, q)])"
proof -
  from run obtain a b c d where pre: "import_rows pre tables = Inr (a, b)"
    and row: "import_row row (a, b) = Inr (c, d)"
    and post: "import_rows post (c, d) = Inr (nr', nh')"
    by (auto simp: import_rows_append ebind_Inr_iff)
  note later = import_rows_elsewhere [OF post length_row_path, of row dflt]
  from import_row_Inr [OF row] obtain e m where
    e: "round_float (row_elementary row) = Inr e" and m: "round_float (row_middle row) = Inr m"
    and c: "set_node a (row_path row) (Dict [(k_elementary, e), (k_middle, m)]) = Inr c"
    and d: "if hs_filled row
        then \<exists>p q. round_float (row_hs_personnel row) = Inr p
               \<and> round_float (row_hs_rate row) = Inr q
               \<and> set_node b (row_path row) (Dict [(k_personnel, p), (k_occupancy, q)]) = Inr d
        else d = b"
    by blast
  have "get_node c (row_path row) dflt = Dict [(k_elementary, e), (k_middle, m)]"
    using get_node_set_node [OF c refl, of dflt] by simp
  with later e m
  show "\<exists>e m. round_float (row_elementary row) = Inr e \<and> round_float (row_middle row) = Inr m
      \<and> (list_all (\<lambda>x. row_path x \<noteq> row_path row) post \<longrightarrow>
           get_node nr' (row_path row) dflt = Dict [(k_elementary, e), (k_middle, m)])"
    by auto
  assume "hs_filled row"
  with d obtain p q where p: "round_float (row_hs_personnel row) = Inr p"
    and q: "round_float (row_hs_rate row) = Inr q"
    and dd: "set_node b (row_path row) (Dict [(k_personnel, p), (k_occupancy, q)]) = Inr d"
    by auto
  have "get_node d (row_path row) dflt = Dict [(k_personnel, p), (k_occupancy, q)]"
    using get_node_set_node [OF dd refl, of dflt] by simp
  with later p q
  show "\<exists>p q. round_float (row_hs_personnel row) = Inr p \<and> round_float (row_hs_rate row) = Inr q
      \<and> (list_all (\<lambda>x. \<not> (hs_filled x \<and> row_path x = row_path row)) post \<longrightarrow>
           get_node nh' (row_path row) dflt = Dict [(k_personnel, p), (k_occupancy, q)])"
    by auto
qed

lemma import_rows_configured:
  assumes run: "import_rows rows (Dict [], Dict []) = Inr (nr', nh')" and len: "length q = 4"
  shows "configured nr' q \<longleftrightarrow> q \<in> row_path ` set rows"
    and "configured nh' q \<longleftrightarrow> q \<in> row_path ` {x \<in> set rows. hs_filled x}"
proof -
  from len have ne: "q \<noteq> []" by auto
  note none = import_rows_elsewhere [OF run len, of "Dict []"]
  show "configured nr' q \<longleftrightarrow> q \<in> row_path ` set rows"
  proof
    assume conf: "configured nr' q"
    show "q \<in> row_path ` set rows"
    proof (rule ccontr)
      assume "q \<notin> row_path ` set rows"
      then have "list_all (\<lambda>x. row_path x \<noteq> q) rows"
        by (auto simp: list_all_iff)
      with none have "get_node nr' q (Dict []) = Dict []"
        by (simp add: get_node_empty [OF ne])
      with conf show False by (simp add: configured_def)
    qed
  next
    assume "q \<in> row_path ` set rows"
    then have "\<exists>x \<in> set rows. row_path x = q" by auto
    then obtain pre row post where split: "rows = pre @ row # post" and row: "row_path row = q"
      and last: "\<forall>x \<in> set post. row_path x \<noteq> q"
      by (auto dest!: split_list_last_prop)
    from last row have "list_all (\<lambda>x. row_path x \<noteq> row_path row) post"
      by (simp add: list_all_iff)
    with import_rows_last(1) [OF run [unfolded split], of "Dict []"] row
    show "configured nr' q" by (auto simp: configured_def)
  qed
  show "configured nh' q \<longleftrightarrow> q \<in> row_path ` {x \<in> set rows. hs_filled x}"
  proof
    assume conf: "configured nh' q"
    show "q \<in> row_path ` {x \<in> set rows. hs_filled x}"
    proof (rule ccontr)
      assume "q \<notin> row_path ` {x \<in> set rows. hs_filled x}"
      then have "list_all (\<lambda>x. \<not> (hs_filled x \<and> row_path x = q)) rows"
        by (auto simp: list_all_iff)
      with none have "get_node nh' q (Dict []) = Dict []"
        by (simp add: get_node_empty [OF ne])
      with conf show False by (simp add: configured_def)
    qed
  next
    assume "q \<in> row_path ` {x \<in> set rows. hs_filled x}"
    then have "\<exists>x \<in> set rows. hs_filled x \<and> row_path x = q" by auto
    then obtain pre row post where split: "rows = pre @ row # post"
      and row: "hs_filled row" "row_path row = q"
      and last: "\<forall>x \<in> set post. \<not> (hs_filled x \<and> row_path x = q)"
      by (auto dest!: split_list_last_prop)
    from last row have "list_all (\<lambda>x. \<not> (hs_filled x \<and> row_path x = row_path row)) post"
      by (simp add: list_all_iff)
    with import_rows_last(2) [OF run [unfolded split] row(1), of "Dict []"] row
    show "configured nh' q" by (auto simp: configured_def)
  qed
qed

lemma process_excel_Imported:
  "process_excel st df = (Imported n, st') \<longleftrightarrow>
     set required_cols \<subseteq> set (df_columns df) \<and> n = length (df_rows df)
     \<and> (\<exists>nr nh. import_rows (df_rows df) (Dict [], Dict []) = Inr (nr, nh)
          \<and> st' = st\<lparr>rates := nr, high_school_rates := nh\<rparr>)"
  by (auto simp: process_excel_def split: sum.splits prod.splits)

lemma process_excel_missing:
  "\<not> set required_cols \<subseteq> set (df_columns df) \<Longrightarrow>
   process_excel st df = (MissingColumns msg_missing_cols, st)"
  by (simp add: process_excel_def)

subsection \<open>Evaluations on the example rows\<close>

lemmas literal_defs = k_elementary_def k_middle_def k_personnel_def k_occupancy_def
  col_city_def col_region_def col_housing_type_def col_supply_type_def col_scale_def
  col_hs_personnel_def col_hs_rate_def

lemmas import_eval = import_row_def round_float_def float_eval ex_row_def ex_row_later_def
  ex_row_spaced_def ex_row_blank_def

lemma ex_import_two:
  "import_rows [ex_row, ex_row_later] (Dict [], Dict []) =
     Inr (Dict [(''A B'', Dict [(''apt'', Dict [(''sale'', Dict [(''84'',
            Dict [(k_elementary, float_lit 13), (k_middle, float_lit 7)])])])])],
          Dict [(''A B'', Dict [(''apt'', Dict [(''sale'', Dict [(''84'',
            Dict [(k_personnel, float_lit (4 / 5)), (k_occupancy, float_lit 15)])])])])])"
  by (simp add: import_eval)

lemma ex_import_later:
  "import_rows [ex_row_later] (Dict [], Dict []) =
     Inr (Dict [(''A B'', Dict [(''apt'', Dict [(''sale'', Dict [(''84'',
            Dict [(k_elementary, float_lit 13), (k_middle, float_lit 7)])])])])],
          Dict [])"
  by (simp add: import_eval)

lemma ex_import_spaced:
  "import_rows [ex_row_spaced] (Dict [], Dict []) =
     Inr (Dict [(''A B C'', Dict [(''apt'', Dict [(''sale'', Dict [(''84'',
            Dict [(k_elementary, float_lit (25 / 2)), (k_middle, float_lit 6)])])])])],
          Dict [(''A B C'', Dict [(''apt'', Dict [(''sale'', Dict [(''84'',
            Dict [(k_personnel, float_lit (4 / 5)), (k_occupancy, float_lit 15)])])])])])"
  by (simp add: import_eval)

lemma required_cols_named:
  "list_all (\<lambda>c. sublist c msg_missing_cols) required_cols"
  by (simp add: required_cols_def literal_defs msg_missing_cols_def sublist_code(3))

lemma ex_process_two:
  "process_excel ex_state \<lparr>df_columns = required_cols, df_rows = [ex_row, ex_row_later]\<rparr>
   = (Imported 2, ex_state\<lparr>
        rates := Dict [(''A B'', Dict [(''apt'', Dict [(''sale'', Dict [(''84'',
            Dict [(k_elementary, float_lit 13), (k_middle, float_lit 7)])])])])],
        high_school_rates := Dict [(''A B'', Dict [(''apt'', Dict [(''sale'', Dict [(''84'',
            Dict [(k_personnel, float_lit (4 / 5)), (k_occupancy, float_lit 15)])])])])]\<rparr>)"
  by (simp add: process_excel_def ex_import_two del: import_rows.simps)

lemma ex_rows_same_path: "row_path ex_row_later = row_path ex_row"
  by (simp add: row_path_def ex_row_later_def ex_row_def)

lemma ex_rows_filled: "hs_filled ex_row" "\<not> hs_filled ex_row_later"
  by (simp_all add: hs_filled_def ex_row_later_def ex_row_def)

lemma decimal_digit: "n < 10 \<Longrightarrow> decimal n = [digit_char n]"
  by (simp add: decimal.simps)

lemma decimal_more: "\<not> n < 10 \<Longrightarrow> decimal n = decimal (n div 10) @ [digit_char n]"
  by (subst decimal.simps) simp

lemmas export_eval = rate_data_def rate_row_def hs_field_def hs_lookup_def export_city_def
  export_region_def decimal_digit decimal_more digit_char_def float_eval

lemma ex_process_spaced:
  "process_excel ex_state \<lparr>df_columns = required_cols, df_rows = [ex_row_spaced]\<rparr>
   = (Imported 1, ex_state\<lparr>
        rates := Dict [(''A B C'', Dict [(''apt'', Dict [(''sale'', Dict [(''84'',
            Dict [(k_elementary, float_lit (25 / 2)), (k_middle, float_lit 6)])])])])],
        high_school_rates := Dict [(''A B C'', Dict [(''apt'', Dict [(''sale'',
            Dict [(''84'', Dict [(k_personnel, float_lit (4 / 5)), (k_occupancy, float_lit 15)])])])])]\<rparr>)"
  by (simp add: process_excel_def ex_import_spaced del: import_rows.simps)

lemma ex_export_spaced:
  "rate_data (ex_state\<lparr>
        rates := Dict [(''A B C'', Dict [(''apt'', Dict [(''sale'', Dict [(''84'',
            Dict [(k_elementary, float_lit (25 / 2)), (k_middle, float_lit 6)])])])])],
        high_school_rates := Dict [(''A B C'', Dict [(''apt'', Dict [(''sale'',
            Dict [(''84'', Dict [(k_personnel, float_lit (4 / 5)), (k_occupancy, float_lit 15)])])])])]\<rparr>)
   = Inr [\<lparr>out_city = ''A'', out_region = ''B'', out_housing_type = ''apt'',
           out_supply_type = ''sale'', out_scale = ''84'', out_elementary = ''12.50'',
           out_middle = ''6.00'', out_hs_personnel = ''0.80'', out_hs_rate = ''15.00''\<rparr>]"
  by (simp add: export_eval literal_defs)

lemma seven_columns_lack:
  "\<not> set required_cols \<subseteq> set [col_city, col_region, col_housing_type, col_supply_type,
      col_scale, k_elementary, k_middle]"
  by (simp add: required_cols_def literal_defs)

lemma no_middle_column_lacks:
  "\<not> set required_cols \<subseteq> set [col_city, col_region, col_housing_type, col_supply_type,
      col_scale, k_elementary, col_hs_personnel, col_hs_rate]"
  by (simp add: required_cols_def literal_defs)

lemma no_elementary_column_lacks:
  "\<not> set required_cols \<subseteq> set [col_city, col_region, col_housing_type, col_supply_type,
      col_scale, k_middle, col_hs_personnel, col_hs_rate]"
  by (simp add: required_cols_def literal_defs)

lemma hs_columns_required:
  "col_hs_personnel \<in> set required_cols" "col_hs_rate \<in> set required_cols"
  by (simp_all add: required_cols_def)

lemma process_excel_convertible:
  assumes cols: "set required_cols \<subseteq> set (df_columns df)"
    and conv: "list_all convertible (df_rows df)"
  shows "\<exists>nr nh. import_rows (df_rows df) (Dict [], Dict []) = Inr (nr, nh)
     \<and> process_excel st df =
         (Imported (length (df_rows df)), st\<lparr>rates := nr, high_school_rates := nh\<rparr>)"
proof -
  have "dict_depth 4 (Dict [])" by (simp add: eval_nat_numeral)
  with import_rows_succeeds [OF conv] obtain nr nh
    where run: "import_rows (df_rows df) (Dict [], Dict []) = Inr (nr, nh)"
    by blast
  with cols show ?thesis by (simp add: process_excel_def)
qed

subsection \<open>The split of a region key\<close>

lemma str_split_no_sep: "sep \<notin> set s \<Longrightarrow> str_split sep s = [s]"
  by (induction s) auto

lemma str_split_first: "sep \<notin> set a \<Longrightarrow> str_split sep (a @ sep # b) = a # str_split sep b"
  by (induction a) auto

lemma export_one_space:
  assumes "CHR '' '' \<notin> set city" and "CHR '' '' \<notin> set district"
  shows "export_city (city @ '' '' @ district) = city"
    and "export_region (city @ '' '' @ district) = district"
  using assms by (simp_all add: export_city_def export_region_def str_split_first str_split_no_sep)

lemma export_more_spaces:
  assumes "CHR '' '' \<notin> set city" and "CHR '' '' \<notin> set word"
  shows "export_city (city @ '' '' @ word @ '' '' @ rest) = city"
    and "export_region (city @ '' '' @ word @ '' '' @ rest) = word"
  using assms by (simp_all add: export_city_def export_region_def str_split_first)

subsection \<open>The estimator\<close>




text \<open>
  C2. On the example of the specification (rates 12.50 and 6.00, headcount 0.80, share
  15.00, 100 units) the call yields elementary 12, kindergarten 6, middle 6 and high 12:
  \<open>100 * 12.5 / 100\<close> is the tie 12.5, which goes to the even neighbour 12.
\<close>

theorem spec_example_counts:
  "calculate_student_counts ex_state ex_city ex_region ex_housing_type ex_supply_type
     ex_scale 100
   = (Estimated \<lparr>res_city = ex_city, res_region = ex_region,
         res_housing_type = ex_housing_type, res_supply_type = ex_supply_type,
         res_scale = ex_scale, res_units = 100, res_kindergarten = 6, res_elementary = 12,
         res_middle = 6, res_high = 12\<rparr>,
      ex_state\<lparr>calculated_results := [\<lparr>res_city = ex_city, res_region = ex_region,
         res_housing_type = ex_housing_type, res_supply_type = ex_supply_type,
         res_scale = ex_scale, res_units = 100, res_kindergarten = 6, res_elementary = 12,
         res_middle = 6, res_high = 12\<rparr>]\<rparr>)"
  by (rule ex_estimate)

text \<open>The elementary count of the example is not 13.\<close>

theorem spec_example_counterexample:
  "fst (calculate_student_counts ex_state ex_city ex_region ex_housing_type ex_supply_type
          ex_scale 100)
   \<noteq> Estimated \<lparr>res_city = ex_city, res_region = ex_region,
         res_housing_type = ex_housing_type, res_supply_type = ex_supply_type,
         res_scale = ex_scale, res_units = 100, res_kindergarten = 6, res_elementary = 13,
         res_middle = 6, res_high = 12\<rparr>"
  by (simp add: calculate_student_counts_def all_selected_def ex_state_def student_counts_def
      share_eval ex_strings)

text \<open>
  C4. The four tests run in the order selection, units, rate entry, high-school entry;
  their four texts differ pairwise; a call that is turned down or that raises leaves the
  state as it was, and a call that yields a result appends exactly that result and leaves
  both tables as they were. An entry counts as present when the looked-up node is truthy.
\<close>

theorem estimate_rejections:
  "distinct [msg_select_all, msg_units, msg_no_rate, msg_no_high_school]
   \<and> (\<not> all_selected [city, region, housing_type, subtype, scale] \<longrightarrow>
        calculate_student_counts st city region housing_type subtype scale units
        = (Rejected msg_select_all, st))
   \<and> (all_selected [city, region, housing_type, subtype, scale] \<and> units \<le> 0 \<longrightarrow>
        calculate_student_counts st city region housing_type subtype scale units
        = (Rejected msg_units, st))
   \<and> (all_selected [city, region, housing_type, subtype, scale] \<and> 0 < units
        \<and> \<not> truthy (get_node (rates st) [region, housing_type, subtype, scale] (Dict [])) \<longrightarrow>
        calculate_student_counts st city region housing_type subtype scale units
        = (Rejected msg_no_rate, st))
   \<and> (all_selected [city, region, housing_type, subtype, scale] \<and> 0 < units
        \<and> truthy (get_node (rates st) [region, housing_type, subtype, scale] (Dict []))
        \<and> \<not> truthy (get_node (high_school_rates st) [region, housing_type, subtype, scale]
                (Dict [])) \<longrightarrow>
        calculate_student_counts st city region housing_type subtype scale units
        = (Rejected msg_no_high_school, st))
   \<and> (\<forall>m st'. calculate_student_counts st city region housing_type subtype scale units
          = (Rejected m, st') \<longrightarrow> st' = st)
   \<and> (\<forall>err st'. calculate_student_counts st city region housing_type subtype scale units
          = (Raised err, st') \<longrightarrow> st' = st)
   \<and> (\<forall>r st'. calculate_student_counts st city region housing_type subtype scale units
          = (Estimated r, st') \<longrightarrow>
          calculated_results st' = calculated_results st @ [r]
          \<and> rates st' = rates st \<and> high_school_rates st' = high_school_rates st)"
proof -
  let ?call = "calculate_student_counts st city region housing_type subtype scale units"
  have rejections:
    "\<not> all_selected [city, region, housing_type, subtype, scale] \<longrightarrow>
       ?call = (Rejected msg_select_all, st)"
    "all_selected [city, region, housing_type, subtype, scale] \<and> units \<le> 0 \<longrightarrow>
       ?call = (Rejected msg_units, st)"
    "all_selected [city, region, housing_type, subtype, scale] \<and> 0 < units
       \<and> \<not> truthy (get_node (rates st) [region, housing_type, subtype, scale] (Dict [])) \<longrightarrow>
       ?call = (Rejected msg_no_rate, st)"
    "all_selected [city, region, housing_type, subtype, scale] \<and> 0 < units
       \<and> truthy (get_node (rates st) [region, housing_type, subtype, scale] (Dict []))
       \<and> \<not> truthy (get_node (high_school_rates st) [region, housing_type, subtype, scale]
               (Dict [])) \<longrightarrow>
       ?call = (Rejected msg_no_high_school, st)"
    by (simp_all add: calculate_student_counts_def Let_def)
  have unchanged: "\<forall>m st'. ?call = (Rejected m, st') \<longrightarrow> st' = st"
    "\<forall>err st'. ?call = (Raised err, st') \<longrightarrow> st' = st"
    using calculate_cases [of st city region housing_type subtype scale units] by auto
  have appended: "\<forall>r st'. ?call = (Estimated r, st') \<longrightarrow>
      calculated_results st' = calculated_results st @ [r]
      \<and> rates st' = rates st \<and> high_school_rates st' = high_school_rates st"
    using calculate_cases [of st city region housing_type subtype scale units] by auto
  from messages_distinct rejections unchanged appended show ?thesis
    by (intro conjI)
qed

theorem estimate_rejections_witness:
  "calculate_student_counts ex_state [] ex_region ex_housing_type ex_supply_type ex_scale 100
     = (Rejected msg_select_all, ex_state)
   \<and> calculate_student_counts ex_state ex_city ex_region ex_housing_type ex_supply_type
       ex_scale 0
     = (Rejected msg_units, ex_state)
   \<and> calculate_student_counts ex_state ex_city ex_region ex_housing_type ex_supply_type
       ''59'' 100
     = (Rejected msg_no_rate, ex_state)
   \<and> calculate_student_counts (ex_state\<lparr>high_school_rates := Dict []\<rparr>) ex_city ex_region
       ex_housing_type ex_supply_type ex_scale 100
     = (Rejected msg_no_high_school, ex_state\<lparr>high_school_rates := Dict []\<rparr>)
   \<and> length (calculated_results (snd (calculate_student_counts ex_state ex_city ex_region
       ex_housing_type ex_supply_type ex_scale 100))) = 1"
proof -
  note T = estimate_rejections
  note r1 = T [THEN conjunct2, THEN conjunct1, THEN mp]
  note r2 = T [THEN conjunct2, THEN conjunct2, THEN conjunct1, THEN mp]
  note r3 = T [THEN conjunct2, THEN conjunct2, THEN conjunct2, THEN conjunct1, THEN mp]
  note r4 = T [THEN conjunct2, THEN conjunct2, THEN conjunct2, THEN conjunct2, THEN conjunct1,
    THEN mp]
  note r7 = T [THEN conjunct2, THEN conjunct2, THEN conjunct2, THEN conjunct2, THEN conjunct2,
    THEN conjunct2, THEN conjunct2, THEN spec, THEN spec, THEN mp]
  have sel: "all_selected [ex_city, ex_region, ex_housing_type, ex_supply_type, ex_scale]"
    "all_selected [ex_city, ex_region, ex_housing_type, ex_supply_type, ''59'']"
    "\<not> all_selected [[], ex_region, ex_housing_type, ex_supply_type, ex_scale]"
    by (simp_all add: all_selected_def ex_strings)
  have 1: "calculate_student_counts ex_state [] ex_region ex_housing_type ex_supply_type
      ex_scale 100 = (Rejected msg_select_all, ex_state)"
    by (rule r1) (rule sel(3))
  have 2: "calculate_student_counts ex_state ex_city ex_region ex_housing_type ex_supply_type
      ex_scale 0 = (Rejected msg_units, ex_state)"
    by (rule r2) (simp add: sel(1))
  have "\<not> truthy (get_node (rates ex_state)
      [ex_region, ex_housing_type, ex_supply_type, ''59''] (Dict []))"
    by (simp add: ex_state_def ex_strings)
  then have 3: "calculate_student_counts ex_state ex_city ex_region ex_housing_type
      ex_supply_type ''59'' 100 = (Rejected msg_no_rate, ex_state)"
    by (intro r3 conjI sel(2)) simp_all
  have "truthy (get_node (rates (ex_state\<lparr>high_school_rates := Dict []\<rparr>))
      [ex_region, ex_housing_type, ex_supply_type, ex_scale] (Dict []))"
    "\<not> truthy (get_node (high_school_rates (ex_state\<lparr>high_school_rates := Dict []\<rparr>))
      [ex_region, ex_housing_type, ex_supply_type, ex_scale] (Dict []))"
    by (simp_all add: ex_state_def)
  then have 4: "calculate_student_counts (ex_state\<lparr>high_school_rates := Dict []\<rparr>) ex_city
      ex_region ex_housing_type ex_supply_type ex_scale 100
      = (Rejected msg_no_high_school, ex_state\<lparr>high_school_rates := Dict []\<rparr>)"
    by (intro r4 conjI sel(1)) simp_all
  have "calculated_results (snd (calculate_student_counts ex_state ex_city ex_region
       ex_housing_type ex_supply_type ex_scale 100)) = calculated_results ex_state @
       [\<lparr>res_city = ex_city, res_region = ex_region,
         res_housing_type = ex_housing_type, res_supply_type = ex_supply_type,
         res_scale = ex_scale, res_units = 100, res_kindergarten = 6, res_elementary = 12,
         res_middle = 6, res_high = 12\<rparr>]"
    using r7 [OF ex_estimate] by (simp only: ex_estimate snd_conv)
  then have 5: "length (calculated_results (snd (calculate_student_counts ex_state ex_city
       ex_region ex_housing_type ex_supply_type ex_scale 100))) = 1"
    by (simp add: ex_state_def)
  from 1 2 3 4 5 show ?thesis by (intro conjI)
qed




subsection \<open>The import\<close>

text \<open>
  C5. After a successful import the estimator finds a rate entry at exactly the paths of
  the imported rows, and a high-school entry at exactly the paths of the imported rows
  whose two high-school cells are filled; the two new tables are the same whatever the
  state before, so nothing of an earlier table is left.
\<close>

theorem import_replaces_tables:
  assumes "process_excel st df = (Imported n, st')"
  shows "(configured (rates st') [region, housing_type, subtype, scale] \<longleftrightarrow>
            [region, housing_type, subtype, scale] \<in> row_path ` set (df_rows df))
     \<and> (configured (high_school_rates st') [region, housing_type, subtype, scale] \<longleftrightarrow>
            [region, housing_type, subtype, scale]
              \<in> row_path ` {row \<in> set (df_rows df). hs_filled row})
     \<and> (\<forall>other. process_excel other df =
            (Imported n, other\<lparr>rates := rates st', high_school_rates := high_school_rates st'\<rparr>))
     \<and> calculated_results st' = calculated_results st"
proof -
  from assms obtain nr nh where cols: "set required_cols \<subseteq> set (df_columns df)"
    and n: "n = length (df_rows df)"
    and run: "import_rows (df_rows df) (Dict [], Dict []) = Inr (nr, nh)"
    and st': "st' = st\<lparr>rates := nr, high_school_rates := nh\<rparr>"
    unfolding process_excel_Imported by blast
  have len: "length [region, housing_type, subtype, scale] = 4" by simp
  have 1: "configured (rates st') [region, housing_type, subtype, scale] \<longleftrightarrow>
            [region, housing_type, subtype, scale] \<in> row_path ` set (df_rows df)"
    using import_rows_configured(1) [OF run len] by (simp add: st')
  have 2: "configured (high_school_rates st') [region, housing_type, subtype, scale] \<longleftrightarrow>
            [region, housing_type, subtype, scale]
              \<in> row_path ` {row \<in> set (df_rows df). hs_filled row}"
    using import_rows_configured(2) [OF run len] by (simp add: st')
  have 3: "\<forall>other. process_excel other df =
      (Imported n, other\<lparr>rates := rates st', high_school_rates := high_school_rates st'\<rparr>)"
    using cols n run by (simp add: process_excel_Imported st')
  have 4: "calculated_results st' = calculated_results st"
    by (simp add: st')
  from 1 2 3 4 show ?thesis by (intro conjI)
qed

theorem import_replaces_tables_witness:
  "process_excel ex_state \<lparr>df_columns = required_cols, df_rows = [ex_row_later]\<rparr>
     = (Imported 1, ex_state\<lparr>rates := Dict [(''A B'', Dict [(''apt'', Dict [(''sale'',
          Dict [(''84'', Dict [(k_elementary, float_lit 13), (k_middle, float_lit 7)])])])])],
          high_school_rates := Dict []\<rparr>)
   \<and> configured (rates ex_state) [ex_region, ex_housing_type, ex_supply_type, ex_scale]
   \<and> \<not> configured (rates (snd (process_excel ex_state
          \<lparr>df_columns = required_cols, df_rows = [ex_row_later]\<rparr>)))
        [ex_region, ex_housing_type, ex_supply_type, ex_scale]
   \<and> configured (rates (snd (process_excel ex_state
          \<lparr>df_columns = required_cols, df_rows = [ex_row_later]\<rparr>)))
        [''A B'', ''apt'', ''sale'', ''84'']
   \<and> \<not> configured (high_school_rates (snd (process_excel ex_state
          \<lparr>df_columns = required_cols, df_rows = [ex_row_later]\<rparr>)))
        [''A B'', ''apt'', ''sale'', ''84'']"
proof -
  let ?df = "\<lparr>df_columns = required_cols, df_rows = [ex_row_later]\<rparr>"
  let ?st = "ex_state\<lparr>rates := Dict [(''A B'', Dict [(''apt'', Dict [(''sale'',
          Dict [(''84'', Dict [(k_elementary, float_lit 13), (k_middle, float_lit 7)])])])])],
          high_school_rates := Dict []\<rparr>"
  have run: "process_excel ex_state ?df = (Imported 1, ?st)"
    by (simp add: process_excel_def ex_import_later del: import_rows.simps)
  have old: "configured (rates ex_state) [ex_region, ex_housing_type, ex_supply_type, ex_scale]"
    by (simp add: configured_def ex_state_def)
  have path: "row_path ex_row_later = [''A B'', ''apt'', ''sale'', ''84'']"
    by (simp add: row_path_def ex_row_later_def ex_row_def)
  have blank: "\<not> hs_filled ex_row_later"
    by (simp add: hs_filled_def ex_row_later_def ex_row_def)
  have other: "[ex_region, ex_housing_type, ex_supply_type, ex_scale]
      \<noteq> [''A B'', ''apt'', ''sale'', ''84'']"
    by (simp add: ex_strings)
  note T = import_replaces_tables [OF run]
  note T1 = T [THEN conjunct1] and T2 = T [THEN conjunct2, THEN conjunct1]
  have gone: "\<not> configured (rates ?st) [ex_region, ex_housing_type, ex_supply_type, ex_scale]"
    unfolding T1 using other by (simp add: path)
  have new: "configured (rates ?st) [''A B'', ''apt'', ''sale'', ''84'']"
    unfolding T1 by (simp add: path)
  have nohs: "\<not> configured (high_school_rates ?st) [''A B'', ''apt'', ''sale'', ''84'']"
    unfolding T2 using blank by auto
  from run old gone new nohs show ?thesis
    by (simp only: snd_conv simp_thms)
qed

text \<open>
  C9. After a successful import the rate entry at the path of a row is that of the last
  row with this path, and the reported count is the number of rows, repeated paths
  included. The high-school entry at the path is that of the last row with this path
  whose two high-school cells are filled: a later row with a blank high-school cell
  leaves the earlier entry in place.
\<close>

theorem duplicate_rows_last_filled_wins:
  assumes "process_excel st df = (Imported n, st')"
    and "df_rows df = pre @ row # post"
  shows "n = length pre + 1 + length post
     \<and> (list_all (\<lambda>x. row_path x \<noteq> row_path row) post \<longrightarrow>
          (\<exists>e m. round_float (row_elementary row) = Inr e
             \<and> round_float (row_middle row) = Inr m
             \<and> get_node (rates st') (row_path row) dflt
                 = Dict [(k_elementary, e), (k_middle, m)]))
     \<and> (hs_filled row
          \<and> list_all (\<lambda>x. \<not> (hs_filled x \<and> row_path x = row_path row)) post \<longrightarrow>
          (\<exists>p q. round_float (row_hs_personnel row) = Inr p
             \<and> round_float (row_hs_rate row) = Inr q
             \<and> get_node (high_school_rates st') (row_path row) dflt
                 = Dict [(k_personnel, p), (k_occupancy, q)]))"
proof -
  from assms(1) obtain nr nh where n: "n = length (df_rows df)"
    and run: "import_rows (df_rows df) (Dict [], Dict []) = Inr (nr, nh)"
    and st': "st' = st\<lparr>rates := nr, high_school_rates := nh\<rparr>"
    unfolding process_excel_Imported by blast
  from n have 1: "n = length pre + 1 + length post"
    by (simp add: assms(2))
  from run have run': "import_rows (pre @ row # post) (Dict [], Dict []) = Inr (nr, nh)"
    by (simp only: assms(2))
  have 2: "list_all (\<lambda>x. row_path x \<noteq> row_path row) post \<longrightarrow>
          (\<exists>e m. round_float (row_elementary row) = Inr e
             \<and> round_float (row_middle row) = Inr m
             \<and> get_node (rates st') (row_path row) dflt
                 = Dict [(k_elementary, e), (k_middle, m)])"
    using import_rows_last(1) [OF run', of dflt] by (auto simp: st')
  have 3: "hs_filled row
          \<and> list_all (\<lambda>x. \<not> (hs_filled x \<and> row_path x = row_path row)) post \<longrightarrow>
          (\<exists>p q. round_float (row_hs_personnel row) = Inr p
             \<and> round_float (row_hs_rate row) = Inr q
             \<and> get_node (high_school_rates st') (row_path row) dflt
                 = Dict [(k_personnel, p), (k_occupancy, q)])"
    using import_rows_last(2) [OF run', of dflt] by (auto simp: st')
  from 1 2 3 show ?thesis by (intro conjI)
qed

theorem duplicate_rows_last_filled_wins_witness:
  "process_excel ex_state \<lparr>df_columns = required_cols, df_rows = [ex_row, ex_row_later]\<rparr>
   = (Imported 2, ex_state\<lparr>
        rates := Dict [(''A B'', Dict [(''apt'', Dict [(''sale'', Dict [(''84'',
            Dict [(k_elementary, float_lit 13), (k_middle, float_lit 7)])])])])],
        high_school_rates := Dict [(''A B'', Dict [(''apt'', Dict [(''sale'', Dict [(''84'',
            Dict [(k_personnel, float_lit (4 / 5)), (k_occupancy, float_lit 15)])])])])]\<rparr>)
   \<and> row_path ex_row_later = row_path ex_row
   \<and> (2::nat) = length [ex_row] + 1 + length ([]::xl_row list)
   \<and> (\<exists>e m. round_float (row_elementary ex_row_later) = Inr e
         \<and> round_float (row_middle ex_row_later) = Inr m
         \<and> get_node (rates (snd (process_excel ex_state
               \<lparr>df_columns = required_cols, df_rows = [ex_row, ex_row_later]\<rparr>)))
             (row_path ex_row_later) (Dict []) = Dict [(k_elementary, e), (k_middle, m)])
   \<and> (\<exists>p q. round_float (row_hs_personnel ex_row) = Inr p
         \<and> round_float (row_hs_rate ex_row) = Inr q
         \<and> get_node (high_school_rates (snd (process_excel ex_state
               \<lparr>df_columns = required_cols, df_rows = [ex_row, ex_row_later]\<rparr>)))
             (row_path ex_row) (Dict []) = Dict [(k_personnel, p), (k_occupancy, q)])"
proof -
  let ?df = "\<lparr>df_columns = required_cols, df_rows = [ex_row, ex_row_later]\<rparr>"
  have rows1: "df_rows ?df = [ex_row] @ ex_row_later # []" by simp
  have rows2: "df_rows ?df = [] @ ex_row # [ex_row_later]" by simp
  note T1 = duplicate_rows_last_filled_wins [OF ex_process_two rows1, of "Dict []"]
  note T2 = duplicate_rows_last_filled_wins [OF ex_process_two rows2, of "Dict []"]
  have count: "(2::nat) = length [ex_row] + 1 + length ([]::xl_row list)"
    by (rule T1 [THEN conjunct1])
  have rate: "\<exists>e m. round_float (row_elementary ex_row_later) = Inr e
         \<and> round_float (row_middle ex_row_later) = Inr m
         \<and> get_node (rates (snd (process_excel ex_state ?df)))
             (row_path ex_row_later) (Dict []) = Dict [(k_elementary, e), (k_middle, m)]"
    unfolding ex_process_two snd_conv
    by (rule T1 [THEN conjunct2, THEN conjunct1, THEN mp]) simp
  have hs: "\<exists>p q. round_float (row_hs_personnel ex_row) = Inr p
         \<and> round_float (row_hs_rate ex_row) = Inr q
         \<and> get_node (high_school_rates (snd (process_excel ex_state ?df)))
             (row_path ex_row) (Dict []) = Dict [(k_personnel, p), (k_occupancy, q)]"
    unfolding ex_process_two snd_conv
    by (rule T2 [THEN conjunct2, THEN conjunct2, THEN mp]) (simp add: ex_rows_filled)
  from ex_process_two ex_rows_same_path count rate hs show ?thesis
    by (intro conjI)
qed

text \<open>
  On two rows with one path, the first with high-school values 0.80 and 15, the second
  with blank high-school cells, the high-school entry after the import is that of the
  first row.
\<close>

theorem duplicate_rows_counterexample:
  "row_path ex_row_later = row_path ex_row
   \<and> \<not> hs_filled ex_row_later
   \<and> get_node (high_school_rates (snd (process_excel ex_state
         \<lparr>df_columns = required_cols, df_rows = [ex_row, ex_row_later]\<rparr>)))
       (row_path ex_row_later) (Dict [])
     = Dict [(k_personnel, float_lit (4 / 5)), (k_occupancy, float_lit 15)]"
  by (simp add: ex_process_two ex_rows_same_path ex_rows_filled)
    (simp add: row_path_def ex_row_def)

text \<open>
  C6. The two high-school columns are in \<^verbatim>\<open>required_cols\<close>: a frame that lacks one of
  them is turned down with the missing-columns text and the state stays as it was. When
  all nine columns are there and \<^verbatim>\<open>float()\<close> accepts the numeric cells, the import
  succeeds, every row has its rate entry, and a path has a high-school entry only if a
  row with that path has both high-school cells filled.
\<close>

theorem high_school_columns_required:
  "(col_hs_personnel \<notin> set (df_columns df) \<or> col_hs_rate \<notin> set (df_columns df) \<longrightarrow>
      process_excel st df = (MissingColumns msg_missing_cols, st))
   \<and> (set required_cols \<subseteq> set (df_columns df) \<and> list_all convertible (df_rows df) \<longrightarrow>
        (\<exists>st'. process_excel st df = (Imported (length (df_rows df)), st')
           \<and> list_all (\<lambda>row. configured (rates st') (row_path row)) (df_rows df)
           \<and> (configured (high_school_rates st') [region, housing_type, subtype, scale] \<longleftrightarrow>
                [region, housing_type, subtype, scale]
                  \<in> row_path ` {row \<in> set (df_rows df). hs_filled row})))"
proof (intro conjI impI)
  assume "col_hs_personnel \<notin> set (df_columns df) \<or> col_hs_rate \<notin> set (df_columns df)"
  with hs_columns_required have "\<not> set required_cols \<subseteq> set (df_columns df)"
    by blast
  then show "process_excel st df = (MissingColumns msg_missing_cols, st)"
    by (rule process_excel_missing)
next
  assume "set required_cols \<subseteq> set (df_columns df) \<and> list_all convertible (df_rows df)"
  then obtain nr nh where run: "import_rows (df_rows df) (Dict [], Dict []) = Inr (nr, nh)"
    and res: "process_excel st df =
         (Imported (length (df_rows df)), st\<lparr>rates := nr, high_school_rates := nh\<rparr>)"
    using process_excel_convertible [of df st] by blast
  have "list_all (\<lambda>row. configured nr (row_path row)) (df_rows df)"
    unfolding list_all_iff
    using import_rows_configured(1) [OF run length_row_path] by blast
  moreover have "configured nh [region, housing_type, subtype, scale] \<longleftrightarrow>
      [region, housing_type, subtype, scale] \<in> row_path ` {row \<in> set (df_rows df). hs_filled row}"
    by (rule import_rows_configured(2) [OF run]) simp
  ultimately show "\<exists>st'. process_excel st df = (Imported (length (df_rows df)), st')
           \<and> list_all (\<lambda>row. configured (rates st') (row_path row)) (df_rows df)
           \<and> (configured (high_school_rates st') [region, housing_type, subtype, scale] \<longleftrightarrow>
                [region, housing_type, subtype, scale]
                  \<in> row_path ` {row \<in> set (df_rows df). hs_filled row})"
    using res by simp
qed

theorem high_school_columns_required_witness:
  "col_hs_personnel \<notin> set [col_city, col_region, col_housing_type, col_supply_type,
      col_scale, k_elementary, k_middle]
   \<and> process_excel ex_state
       \<lparr>df_columns = [col_city, col_region, col_housing_type, col_supply_type, col_scale,
          k_elementary, k_middle], df_rows = [ex_row_later]\<rparr>
     = (MissingColumns msg_missing_cols, ex_state)
   \<and> list_all convertible [ex_row_later]
   \<and> (\<exists>st'. process_excel ex_state \<lparr>df_columns = required_cols, df_rows = [ex_row_later]\<rparr>
          = (Imported 1, st')
        \<and> configured (rates st') (row_path ex_row_later)
        \<and> \<not> configured (high_school_rates st') [''A B'', ''apt'', ''sale'', ''84''])"
proof -
  let ?seven = "\<lparr>df_columns = [col_city, col_region, col_housing_type, col_supply_type,
    col_scale, k_elementary, k_middle], df_rows = [ex_row_later]\<rparr>"
  let ?nine = "\<lparr>df_columns = required_cols, df_rows = [ex_row_later]\<rparr>"
  note T = high_school_columns_required
  have lack: "col_hs_personnel \<notin> set [col_city, col_region, col_housing_type, col_supply_type,
      col_scale, k_elementary, k_middle]"
    by (simp add: literal_defs)
  have lack': "col_hs_personnel \<notin> set (df_columns ?seven)"
    by (simp add: literal_defs)
  have rejected: "process_excel ex_state ?seven = (MissingColumns msg_missing_cols, ex_state)"
    by (rule T [THEN conjunct1, THEN mp]) (rule disjI1, rule lack')
  have conv: "list_all convertible [ex_row_later]"
    by (simp add: convertible_def hs_filled_def ex_row_later_def ex_row_def)
  have path: "row_path ex_row_later = [''A B'', ''apt'', ''sale'', ''84'']"
    by (simp add: row_path_def ex_row_later_def ex_row_def)
  from T [of ?nine ex_state "''A B''" "''apt''" "''sale''" "''84''", THEN conjunct2, THEN mp]
    conv
  obtain st' where ok: "process_excel ex_state ?nine = (Imported 1, st')"
    and rate: "configured (rates st') (row_path ex_row_later)"
    and hs: "configured (high_school_rates st') [''A B'', ''apt'', ''sale'', ''84''] \<longleftrightarrow>
       [''A B'', ''apt'', ''sale'', ''84''] \<in> row_path ` {row \<in> set [ex_row_later]. hs_filled row}"
    by auto
  from hs ex_rows_filled(2) have "\<not> configured (high_school_rates st')
      [''A B'', ''apt'', ''sale'', ''84'']"
    by auto
  with ok rate have "\<exists>st'. process_excel ex_state ?nine = (Imported 1, st')
        \<and> configured (rates st') (row_path ex_row_later)
        \<and> \<not> configured (high_school_rates st') [''A B'', ''apt'', ''sale'', ''84'']"
    by blast
  with lack rejected conv show ?thesis by (intro conjI)
qed

text \<open>
  A frame with the seven columns from the city to the middle rate and without the two
  high-school columns is turned down.
\<close>

theorem seven_columns_counterexample:
  "process_excel ex_state
     \<lparr>df_columns = [col_city, col_region, col_housing_type, col_supply_type, col_scale,
        k_elementary, k_middle], df_rows = [ex_row_later]\<rparr>
   = (MissingColumns msg_missing_cols, ex_state)"
  using seven_columns_lack by (simp add: process_excel_def)

text \<open>
  C7. A frame that lacks a required column is turned down with one fixed text, which
  names all nine required columns (the missing ones among them), and the state stays as
  it was.
\<close>

theorem missing_column_rejected:
  assumes "\<not> set required_cols \<subseteq> set (df_columns df)"
  shows "process_excel st df = (MissingColumns msg_missing_cols, st)
     \<and> list_all (\<lambda>c. sublist c msg_missing_cols) required_cols"
  using assms required_cols_named by (simp add: process_excel_def)

theorem missing_column_rejected_witness:
  "\<not> set required_cols \<subseteq> set [col_city, col_region, col_housing_type, col_supply_type,
      col_scale, k_elementary, col_hs_personnel, col_hs_rate]
   \<and> process_excel ex_state
       \<lparr>df_columns = [col_city, col_region, col_housing_type, col_supply_type, col_scale,
          k_elementary, col_hs_personnel, col_hs_rate], df_rows = [ex_row]\<rparr>
     = (MissingColumns msg_missing_cols, ex_state)
   \<and> sublist k_middle msg_missing_cols"
proof -
  let ?df = "\<lparr>df_columns = [col_city, col_region, col_housing_type, col_supply_type, col_scale,
          k_elementary, col_hs_personnel, col_hs_rate], df_rows = [ex_row]\<rparr>"
  have lack: "\<not> set required_cols \<subseteq> set (df_columns ?df)"
    using no_middle_column_lacks by simp
  note T = missing_column_rejected [OF lack, of ex_state]
  from T [THEN conjunct2] have "sublist k_middle msg_missing_cols"
    by (simp add: required_cols_def)
  with no_middle_column_lacks T [THEN conjunct1] show ?thesis by (intro conjI)
qed

text \<open>
  The text shown for a frame that lacks only the middle-rate column also names the
  elementary-rate column, which the frame has, and is the text shown for a frame that
  lacks only the elementary-rate column.
\<close>

theorem missing_column_counterexample:
  "process_excel ex_state
       \<lparr>df_columns = [col_city, col_region, col_housing_type, col_supply_type, col_scale,
          k_elementary, col_hs_personnel, col_hs_rate], df_rows = [ex_row]\<rparr>
     = (MissingColumns msg_missing_cols, ex_state)
   \<and> k_elementary \<in> set [col_city, col_region, col_housing_type, col_supply_type, col_scale,
          k_elementary, col_hs_personnel, col_hs_rate]
   \<and> sublist k_elementary msg_missing_cols
   \<and> process_excel ex_state
       \<lparr>df_columns = [col_city, col_region, col_housing_type, col_supply_type, col_scale,
          k_middle, col_hs_personnel, col_hs_rate], df_rows = [ex_row]\<rparr>
     = (MissingColumns msg_missing_cols, ex_state)"
proof -
  have "sublist k_elementary msg_missing_cols"
    using required_cols_named by (simp add: required_cols_def)
  with no_middle_column_lacks no_elementary_column_lacks show ?thesis
    by (simp add: process_excel_def)
qed

subsection \<open>The export\<close>

text \<open>
  C3. A row with city \<open>A\<close> and district \<open>B C\<close> is stored under the region key
  \<open>A B C\<close>; the export of that table gives the city \<open>A\<close> and the region \<open>B\<close>, the
  second piece of the split at every space, so the exported leaf is \<open>A B\<close> and not the
  imported leaf \<open>A B C\<close>. The four rates are exported as the two-place roundings of
  the imported values.
\<close>

theorem export_after_import_two_word_district:
  "row_city ex_row_spaced = ''A'' \<and> row_region ex_row_spaced = ''B C''
   \<and> row_path ex_row_spaced = [''A B C'', ''apt'', ''sale'', ''84'']
   \<and> rate_data (snd (process_excel ex_state
        \<lparr>df_columns = required_cols, df_rows = [ex_row_spaced]\<rparr>))
     = Inr [\<lparr>out_city = ''A'', out_region = ''B'', out_housing_type = ''apt'',
             out_supply_type = ''sale'', out_scale = ''84'', out_elementary = ''12.50'',
             out_middle = ''6.00'', out_hs_personnel = ''0.80'', out_hs_rate = ''15.00''\<rparr>]"
  by (simp add: ex_process_spaced ex_export_spaced)
    (simp add: ex_row_spaced_def ex_row_def row_path_def)

subsection \<open>Removal from the result list\<close>

lemma new_results_shift:
  "map snd (filter (\<lambda>(i, r). int i \<notin> S) (enumerate n xs)) =
   map fst (filter (\<lambda>p. int (snd p + n) \<notin> S) (zip xs [0..<length xs]))"
proof (induction xs arbitrary: n rule: rev_induct)
  case Nil
  show ?case by simp
next
  case (snoc x xs)
  have "enumerate n (xs @ [x]) = enumerate n xs @ [(n + length xs, x)]"
    by (simp add: enumerate_append_eq)
  then show ?case
    using snoc by (simp add: add.commute)
qed

lemma new_results_nths:
  "new_results S xs = nths xs {i. int i \<notin> set S}"
  unfolding new_results_def nths_def
  using new_results_shift [of "set S" 0 xs] by simp

text \<open>
  C8. Removal keeps exactly the entries whose position at the time of the call is not
  selected, in their order; the positions of a second removal are those of the list the
  first one left: after removing positions 1 and 3 of five entries, position 0 is the
  entry that was first.
\<close>

theorem remove_at_current_positions:
  "new_results S xs = nths xs {i. int i \<notin> set S}
   \<and> length (new_results S xs) = card {i. i < length xs \<and> int i \<notin> set S}
   \<and> subseq (new_results S xs) xs
   \<and> new_results [1, 3] [a, b, c, d, e] = [a, c, e]
   \<and> new_results [0] (new_results [1, 3] [a, b, c, d, e]) = [c, e]"
proof -
  have 1: "new_results S xs = nths xs {i. int i \<notin> set S}"
    by (rule new_results_nths)
  have 2: "subseq (new_results S xs) xs"
    unfolding new_results_nths subseq_conv_nths by blast
  have 3: "new_results [1, 3] [a, b, c, d, e] = [a, c, e]"
    by (simp add: new_results_def enumerate_eq_zip upt_rec)
  have 4: "new_results [0] [a, c, e] = [c, e]"
    by (simp add: new_results_def enumerate_eq_zip upt_rec)
  have 5: "length (new_results S xs) = card {i. i < length xs \<and> int i \<notin> set S}"
    unfolding new_results_nths length_nths by simp
  from 1 2 3 4 5 show ?thesis by simp
qed

end
